theory Spec2Isabelle
  imports Main
begin

section \<open>The WLST script start-server.py\<close>

text \<open>
  The script runs once, top to bottom, inside the WLST interpreter. Everything it does is
  an effect on its surroundings: it reads the process environment, reads and writes two
  files, calls the node manager commands of WLST and prints. The model makes the
  surroundings a parameter (\<open>world\<close>: what each outside call answers) and records every
  outside call the script makes, in order, in a trace of events. An event is recorded when
  the call is issued, also when the call then raises.

  The script imports \<open>sys\<close> and \<open>base64\<close> only. The other names it uses (\<open>os\<close>,
  \<open>nmConnect\<close>, \<open>nmStart\<close>, \<open>nmDisconnect\<close>, \<open>WLSTException\<close>, \<open>exit\<close>) are taken to
  be provided by the WLST interpreter that runs it; what they answer is part of the world.
\<close>

subsection \<open>Exceptions, events and the surroundings\<close>

text \<open>
  The exceptions an outside call can raise. \<open>WLSTException\<close> carries the text that
  \<open>print e\<close> shows; it is the only exception the script's handler names.
\<close>

datatype exn =
    IOError string
  | Base64Error string
  | WLSTException string
  | OtherException string

text \<open>The keyword arguments of \<open>nmConnect\<close>, all strings in the script (the port too).\<close>

record connect_args =
  userConfigFile :: string
  userKeyFile :: string
  host :: string
  port :: string
  domainName :: string
  domainDir :: string
  nmType :: string

datatype event =
    Print string
  | OpenFile string string
  | ReadFile string
  | WriteFile string string
  | CloseFile string
  | NmConnect connect_args
  | NmStart string
  | NmDisconnect

text \<open>
  What the surroundings answer. \<open>None\<close> in an outcome is a call that returns normally,
  \<open>Some e\<close> one that raises \<open>e\<close>. A file object is identified with the path it was
  opened on. \<open>nmDisconnect_outcome w k\<close> is the answer to the call of \<open>nmDisconnect\<close>
  that has \<open>k\<close> earlier calls of \<open>nmDisconnect\<close> before it. \<open>decodestring\<close> is the library
  routine \<open>base64.decodestring\<close>.
\<close>

record world =
  environ :: "string \<Rightarrow> string option"
  open_outcome :: "string \<Rightarrow> string \<Rightarrow> exn option"
  read_outcome :: "string \<Rightarrow> exn + string"
  write_outcome :: "string \<Rightarrow> string \<Rightarrow> exn option"
  close_outcome :: "string \<Rightarrow> exn option"
  decodestring :: "string \<Rightarrow> exn + string"
  nmConnect_outcome :: "connect_args \<Rightarrow> exn option"
  nmStart_outcome :: "string \<Rightarrow> exn option"
  nmDisconnect_outcome :: "nat \<Rightarrow> exn option"

subsection \<open>Statements as trace transformers\<close>

text \<open>
  A statement either returns a value, raises an exception, or ends the process with an
  exit code (\<open>sys.exit\<close>, \<open>exit()\<close>); in each case it has extended the trace.
\<close>

datatype 'a res = Return 'a | Raise exn | Exit nat

type_synonym 'a prog = "event list \<Rightarrow> 'a res \<times> event list"

text \<open>Sequencing: the rest of the script runs only when the statement returned.\<close>

definition and_then :: "'a prog \<Rightarrow> ('a \<Rightarrow> 'b prog) \<Rightarrow> 'b prog" where
  "and_then m f tr =
     (case m tr of
        (Return x, tr') \<Rightarrow> f x tr'
      | (Raise e, tr') \<Rightarrow> (Raise e, tr')
      | (Exit n, tr') \<Rightarrow> (Exit n, tr'))"

text \<open>
  \<open>try: body  except WLSTException, e: handler\<close>. Only a \<open>WLSTException\<close> enters the
  handler; any other exception, and a process exit, pass through.
\<close>

definition try_except_WLSTException :: "unit prog \<Rightarrow> (string \<Rightarrow> unit prog) \<Rightarrow> unit prog" where
  "try_except_WLSTException body handler tr =
     (case body tr of
        (Raise (WLSTException msg), tr') \<Rightarrow> handler msg tr'
      | r \<Rightarrow> r)"

text \<open>An outside call without a result: record it, then return or raise as answered.\<close>

definition call :: "event \<Rightarrow> exn option \<Rightarrow> unit prog" where
  "call ev outcome tr =
     (case outcome of None \<Rightarrow> (Return (), tr @ [ev]) | Some e \<Rightarrow> (Raise e, tr @ [ev]))"

text \<open>An outside call with a result.\<close>

definition call_value :: "event \<Rightarrow> exn + 'a \<Rightarrow> 'a prog" where
  "call_value ev outcome tr =
     (case outcome of Inr v \<Rightarrow> (Return v, tr @ [ev]) | Inl e \<Rightarrow> (Raise e, tr @ [ev]))"

text \<open>A library computation with no effect outside: nothing is recorded.\<close>

definition compute :: "exn + 'a \<Rightarrow> 'a prog" where
  "compute outcome tr =
     (case outcome of Inr v \<Rightarrow> (Return v, tr) | Inl e \<Rightarrow> (Raise e, tr))"

text \<open>
  The \<open>print\<close> statement of Python 2: the items of one statement are written on one line,
  a single space between two items.
\<close>

fun join_items :: "string list \<Rightarrow> string" where
  "join_items [] = []"
| "join_items [x] = x"
| "join_items (x # y # ys) = x @ '' '' @ join_items (y # ys)"

definition print_stmt :: "string list \<Rightarrow> unit prog" where
  "print_stmt items tr = (Return (), tr @ [Print (join_items items)])"

definition sys_exit :: "nat \<Rightarrow> 'a prog" where
  "sys_exit n tr = (Exit n, tr)"

text \<open>The command \<open>exit()\<close> of WLST, without arguments: the process ends with code 0.\<close>

definition wlst_exit :: "unit prog" where
  "wlst_exit tr = (Exit 0, tr)"

subsection \<open>The script\<close>

text \<open>
  \<^verbatim>\<open>
  def getEnvVar(var):
    val=os.environ.get(var)
    if val==None:
      print "ERROR: Env var ",var, " not set."
      sys.exit(1)
    return val
  \<close>
\<close>

definition getEnvVar :: "world \<Rightarrow> string \<Rightarrow> string prog" where
  "getEnvVar w var =
     (case environ w var of
        None \<Rightarrow> and_then (print_stmt [''ERROR: Env var '', var, '' not set.'']) (\<lambda>_. sys_exit 1)
      | Some val \<Rightarrow> (\<lambda>tr. (Return val, tr)))"

definition key_path :: string where
  "key_path = ''/weblogic-operator/introspector/userKeyNodeManager.secure''"

definition bin_path :: string where
  "bin_path = ''/tmp/userKeyNodeManager.secure.bin''"

definition config_path :: string where
  "config_path = ''/weblogic-operator/introspector/userConfigNodeManager.secure''"

text \<open>
  Lines 33 to 40: read the key file, decode it, write the binary file.
\<close>

definition decode_credential :: "world \<Rightarrow> unit prog" where
  "decode_credential w =
     and_then (call (OpenFile key_path ''r'') (open_outcome w key_path ''r'')) (\<lambda>_.
     and_then (call_value (ReadFile key_path) (read_outcome w key_path)) (\<lambda>contents.
     and_then (call (CloseFile key_path) (close_outcome w key_path)) (\<lambda>_.
     and_then (compute (decodestring w contents)) (\<lambda>decoded.
     and_then (call (OpenFile bin_path ''wb'') (open_outcome w bin_path ''wb'')) (\<lambda>_.
     and_then (call (WriteFile bin_path decoded) (write_outcome w bin_path decoded)) (\<lambda>_.
     call (CloseFile bin_path) (close_outcome w bin_path)))))))"

text \<open>The arguments of the \<open>nmConnect\<close> call of lines 45 to 49.\<close>

definition the_connect_args :: "string \<Rightarrow> string \<Rightarrow> connect_args" where
  "the_connect_args domain_name domain_path =
     \<lparr>userConfigFile = config_path,
      userKeyFile = bin_path,
      host = ''127.0.0.1'',
      port = ''5556'',
      domainName = domain_name,
      domainDir = domain_path,
      nmType = ''plain''\<rparr>"

definition nmConnect :: "world \<Rightarrow> connect_args \<Rightarrow> unit prog" where
  "nmConnect w args = call (NmConnect args) (nmConnect_outcome w args)"

definition nmStart :: "world \<Rightarrow> string \<Rightarrow> unit prog" where
  "nmStart w server = call (NmStart server) (nmStart_outcome w server)"

text \<open>The answer depends on how many calls of \<open>nmDisconnect\<close> the trace already holds.\<close>

definition nmDisconnect :: "world \<Rightarrow> unit prog" where
  "nmDisconnect w tr =
     call NmDisconnect (nmDisconnect_outcome w (length (filter (\<lambda>ev. ev = NmDisconnect) tr))) tr"

text \<open>Lines 45 to 51: the body of the \<open>try\<close> statement.\<close>

definition try_body :: "world \<Rightarrow> string \<Rightarrow> string \<Rightarrow> string \<Rightarrow> unit prog" where
  "try_body w domain_name domain_path server_name =
     and_then (nmConnect w (the_connect_args domain_name domain_path)) (\<lambda>_.
     and_then (nmStart w server_name) (\<lambda>_.
     nmDisconnect w))"

text \<open>Lines 53 and 54: the handler, \<open>e\<close> being the text of the caught exception.\<close>

definition except_body :: "world \<Rightarrow> string \<Rightarrow> unit prog" where
  "except_body w e = and_then (nmDisconnect w) (\<lambda>_. print_stmt [e])"

text \<open>Lines 44 to 54: the \<open>try\<close> statement.\<close>

definition connect_and_start :: "world \<Rightarrow> string \<Rightarrow> string \<Rightarrow> string \<Rightarrow> unit prog" where
  "connect_and_start w domain_name domain_path server_name =
     try_except_WLSTException (try_body w domain_name domain_path server_name) (except_body w)"

text \<open>The module body, lines 22 to 56.\<close>

definition script :: "world \<Rightarrow> unit prog" where
  "script w =
     and_then (getEnvVar w ''DOMAIN_UID'') (\<lambda>domain_uid.
     and_then (getEnvVar w ''SERVER_NAME'') (\<lambda>server_name.
     and_then (getEnvVar w ''DOMAIN_NAME'') (\<lambda>domain_name.
     and_then (getEnvVar w ''DOMAIN_HOME'') (\<lambda>domain_path.
     and_then (getEnvVar w ''SERVICE_NAME'') (\<lambda>service_name.
     and_then (print_stmt [''domain path is '' @ domain_path]) (\<lambda>_.
     and_then (print_stmt [''server name is '' @ server_name]) (\<lambda>_.
     and_then (decode_credential w) (\<lambda>_.
     and_then (connect_and_start w domain_name domain_path server_name) (\<lambda>_.
     wlst_exit)))))))))"

text \<open>
  How the process ends: with an exit code, or by an exception that nothing caught. A script
  that runs off its last line ends the interpreter normally.
\<close>

datatype outcome = Exited nat | Uncaught exn

fun outcome_of :: "unit res \<Rightarrow> outcome" where
  "outcome_of (Return _) = Exited 0"
| "outcome_of (Raise e) = Uncaught e"
| "outcome_of (Exit n) = Exited n"

definition run :: "world \<Rightarrow> outcome \<times> event list" where
  "run w = (case script w [] of (r, tr) \<Rightarrow> (outcome_of r, tr))"

text \<open>
  The exit status the process hands to its parent. An exit call hands over its code. A
  Python interpreter ended by an exception that nothing caught prints the traceback and
  ends with status 1.
\<close>

fun exit_status :: "outcome \<Rightarrow> nat" where
  "exit_status (Exited n) = n"
| "exit_status (Uncaught e) = 1"

subsection \<open>Notions used in the statements\<close>

text \<open>The five variables, in the order of the lookups of lines 22 to 26.\<close>

definition required_vars :: "string list" where
  "required_vars = [''DOMAIN_UID'', ''SERVER_NAME'', ''DOMAIN_NAME'', ''DOMAIN_HOME'', ''SERVICE_NAME'']"

text \<open>The first of them, in that order, that the environment does not set.\<close>

definition missing_var :: "world \<Rightarrow> string option" where
  "missing_var w = find (\<lambda>v. environ w v = None) required_vars"

text \<open>The five variables are set, to these values.\<close>

definition env_set :: "world \<Rightarrow> string \<Rightarrow> string \<Rightarrow> string \<Rightarrow> string \<Rightarrow> string \<Rightarrow> bool" where
  "env_set w uid sn dn dp svc =
     (environ w ''DOMAIN_UID'' = Some uid \<and> environ w ''SERVER_NAME'' = Some sn \<and>
      environ w ''DOMAIN_NAME'' = Some dn \<and> environ w ''DOMAIN_HOME'' = Some dp \<and>
      environ w ''SERVICE_NAME'' = Some svc)"

text \<open>The line that \<open>getEnvVar\<close> prints for a variable that is not set.\<close>

definition error_line :: "string \<Rightarrow> string" where
  "error_line var = join_items [''ERROR: Env var '', var, '' not set.'']"

text \<open>The two lines printed once the five lookups have succeeded.\<close>

definition config_lines :: "string \<Rightarrow> string \<Rightarrow> event list" where
  "config_lines dp sn = [Print (''domain path is '' @ dp), Print (''server name is '' @ sn)]"

text \<open>
  Every call of the decoding step returns: the key file holds \<open>contents\<close>, which the
  library routine decodes to \<open>decoded\<close>.
\<close>

definition decode_ok :: "world \<Rightarrow> string \<Rightarrow> string \<Rightarrow> bool" where
  "decode_ok w contents decoded =
     (open_outcome w key_path ''r'' = None \<and> read_outcome w key_path = Inr contents \<and>
      close_outcome w key_path = None \<and> decodestring w contents = Inr decoded \<and>
      open_outcome w bin_path ''wb'' = None \<and> write_outcome w bin_path decoded = None \<and>
      close_outcome w bin_path = None)"

text \<open>The file calls of a decoding step that succeeds.\<close>

definition decode_events :: "string \<Rightarrow> event list" where
  "decode_events decoded =
     [OpenFile key_path ''r'', ReadFile key_path, CloseFile key_path,
      OpenFile bin_path ''wb'', WriteFile bin_path decoded, CloseFile bin_path]"

text \<open>The trace at the moment the \<open>try\<close> statement is entered.\<close>

definition before_try :: "string \<Rightarrow> string \<Rightarrow> string \<Rightarrow> event list" where
  "before_try dp sn decoded = config_lines dp sn @ decode_events decoded"

fun is_file_event :: "event \<Rightarrow> bool" where
  "is_file_event (OpenFile _ _) = True"
| "is_file_event (ReadFile _) = True"
| "is_file_event (WriteFile _ _) = True"
| "is_file_event (CloseFile _) = True"
| "is_file_event _ = False"

fun is_nm_event :: "event \<Rightarrow> bool" where
  "is_nm_event (NmConnect _) = True"
| "is_nm_event (NmStart _) = True"
| "is_nm_event NmDisconnect = True"
| "is_nm_event _ = False"

text \<open>The file writes of a trace: path and data, in order.\<close>

fun file_writes :: "event list \<Rightarrow> (string \<times> string) list" where
  "file_writes [] = []"
| "file_writes (WriteFile p d # evs) = (p, d) # file_writes evs"
| "file_writes (_ # evs) = file_writes evs"

text \<open>
  The stage of the sequence an outside call belongs to: 1 decoding the credential,
  2 connecting, 3 starting, 4 disconnecting. Printing belongs to no single stage (0).
\<close>

fun stage :: "event \<Rightarrow> nat" where
  "stage (Print _) = 0"
| "stage (OpenFile _ _) = 1"
| "stage (ReadFile _) = 1"
| "stage (WriteFile _ _) = 1"
| "stage (CloseFile _) = 1"
| "stage (NmConnect _) = 2"
| "stage (NmStart _) = 3"
| "stage NmDisconnect = 4"

fun is_print :: "event \<Rightarrow> bool" where
  "is_print (Print _) = True"
| "is_print _ = False"

subsection \<open>Standard base64 decoding\<close>

text \<open>
  Modelled from the spec: \<open>base64.decodestring\<close> is a routine of the Python library, not
  of this repository; the spec takes it to be standard base64 decoding. The script's model
  takes the routine as the parameter \<open>decodestring\<close> of the world; \<open>b64decode\<close> below is
  the standard decoding (RFC 4648: groups of four characters of the alphabet, the last group
  padded with \<open>=\<close>), against which the written bytes are stated.
\<close>

definition b64_alphabet :: string where
  "b64_alphabet = ''ABCDEFGHIJKLMNOPQRSTUVWXYZabcdefghijklmnopqrstuvwxyz0123456789+/''"

fun index_of :: "char \<Rightarrow> string \<Rightarrow> nat option" where
  "index_of c [] = None"
| "index_of c (x # xs) = (if c = x then Some 0 else map_option Suc (index_of c xs))"

definition b64_value :: "char \<Rightarrow> nat option" where
  "b64_value c = index_of c b64_alphabet"

text \<open>The character with the eight low bits of a number, lowest bit first.\<close>

definition byte :: "nat \<Rightarrow> char" where
  "byte n =
     Char (odd n) (odd (n div 2)) (odd (n div 4)) (odd (n div 8))
          (odd (n div 16)) (odd (n div 32)) (odd (n div 64)) (odd (n div 128))"

fun b64decode :: "string \<Rightarrow> exn + string" where
  "b64decode [] = Inr []"
| "b64decode [a, b, c, d] =
     (if c = CHR ''='' \<and> d = CHR ''='' then
        (case (b64_value a, b64_value b) of
           (Some x, Some y) \<Rightarrow> Inr [byte ((x * 64 + y) div 16)]
         | _ \<Rightarrow> Inl (Base64Error ''Invalid character''))
      else if d = CHR ''='' then
        (case (b64_value a, b64_value b, b64_value c) of
           (Some x, Some y, Some z) \<Rightarrow>
             Inr [byte ((x * 4096 + y * 64 + z) div 1024), byte ((x * 4096 + y * 64 + z) div 4)]
         | _ \<Rightarrow> Inl (Base64Error ''Invalid character''))
      else
        (case (b64_value a, b64_value b, b64_value c, b64_value d) of
           (Some x, Some y, Some z, Some u) \<Rightarrow>
             Inr [byte ((x * 262144 + y * 4096 + z * 64 + u) div 65536),
                  byte ((x * 262144 + y * 4096 + z * 64 + u) div 256),
                  byte (x * 262144 + y * 4096 + z * 64 + u)]
         | _ \<Rightarrow> Inl (Base64Error ''Invalid character'')))"
| "b64decode (a # b # c # d # rest) =
     (case (b64_value a, b64_value b, b64_value c, b64_value d) of
        (Some x, Some y, Some z, Some u) \<Rightarrow>
          (case b64decode rest of
             Inr bytes \<Rightarrow>
               Inr (byte ((x * 262144 + y * 4096 + z * 64 + u) div 65536) #
                    byte ((x * 262144 + y * 4096 + z * 64 + u) div 256) #
                    byte (x * 262144 + y * 4096 + z * 64 + u) # bytes)
           | Inl e \<Rightarrow> Inl e)
      | _ \<Rightarrow> Inl (Base64Error ''Invalid character''))"
| "b64decode _ = Inl (Base64Error ''Incorrect padding'')"

subsection \<open>Sample surroundings\<close>

text \<open>
  The scenario of the spec: the five variables set, the key file holding the base64 text
  of \<open>secretbytes\<close>, every outside call returning.
\<close>

definition sample_world :: world where
  "sample_world =
     \<lparr>environ = map_of [(''DOMAIN_UID'', ''uid1''), (''SERVER_NAME'', ''server1''),
                        (''DOMAIN_NAME'', ''domain1''), (''DOMAIN_HOME'', ''/shared/domain''),
                        (''SERVICE_NAME'', ''svc1'')],
      open_outcome = (\<lambda>path mode. None),
      read_outcome = (\<lambda>path. Inr ''c2VjcmV0Ynl0ZXM=''),
      write_outcome = (\<lambda>path data. None),
      close_outcome = (\<lambda>path. None),
      decodestring = b64decode,
      nmConnect_outcome = (\<lambda>args. None),
      nmStart_outcome = (\<lambda>server. None),
      nmDisconnect_outcome = (\<lambda>k. None)\<rparr>"

text \<open>Variations of the scenario, one outside answer changed at a time.\<close>

definition no_home_world :: world where
  "no_home_world = sample_world\<lparr>environ := (environ sample_world)(''DOMAIN_HOME'' := None)\<rparr>"

definition two_missing_world :: world where
  "two_missing_world =
     sample_world\<lparr>environ := (environ sample_world)(''SERVER_NAME'' := None, ''DOMAIN_HOME'' := None)\<rparr>"

definition no_key_file_world :: world where
  "no_key_file_world =
     sample_world\<lparr>open_outcome := (\<lambda>path mode.
        if path = key_path then Some (IOError ''No such file or directory'') else None)\<rparr>"

definition key_unreadable_world :: world where
  "key_unreadable_world =
     sample_world\<lparr>read_outcome := (\<lambda>path. Inl (IOError ''Input/output error''))\<rparr>"

definition disk_full_world :: world where
  "disk_full_world =
     sample_world\<lparr>write_outcome := (\<lambda>path data. Some (IOError ''No space left on device''))\<rparr>"

definition tmp_unwritable_world :: world where
  "tmp_unwritable_world =
     sample_world\<lparr>open_outcome := (\<lambda>path mode.
        if path = bin_path then Some (IOError ''Permission denied'') else None)\<rparr>"

definition refused_world :: world where
  "refused_world =
     sample_world\<lparr>nmConnect_outcome := (\<lambda>args. Some (WLSTException ''Cannot connect to Node Manager''))\<rparr>"

definition start_fails_world :: world where
  "start_fails_world =
     sample_world\<lparr>nmStart_outcome := (\<lambda>server. Some (WLSTException ''Error starting server''))\<rparr>"

definition start_and_cleanup_fail_world :: world where
  "start_and_cleanup_fail_world =
     sample_world\<lparr>nmStart_outcome := (\<lambda>server. Some (WLSTException ''Error starting server'')),
                  nmDisconnect_outcome := (\<lambda>k. Some (WLSTException ''Error disconnecting''))\<rparr>"

definition refused_and_cleanup_fails_world :: world where
  "refused_and_cleanup_fails_world =
     sample_world\<lparr>nmConnect_outcome := (\<lambda>args. Some (WLSTException ''Cannot connect to Node Manager'')),
                  nmDisconnect_outcome := (\<lambda>k. Some (WLSTException ''Not connected to Node Manager''))\<rparr>"

definition disconnect_fails_world :: world where
  "disconnect_fails_world =
     sample_world\<lparr>nmDisconnect_outcome := (\<lambda>k.
        if k = 0 then Some (WLSTException ''Connection lost'') else None)\<rparr>"

definition both_disconnects_fail_world :: world where
  "both_disconnects_fail_world =
     sample_world\<lparr>nmDisconnect_outcome := (\<lambda>k.
        if k = 0 then Some (WLSTException ''Connection lost'')
        else Some (WLSTException ''Not connected to Node Manager''))\<rparr>"

section \<open>Properties\<close>

subsection \<open>The steps of the script, one at a time\<close>

lemma sample_decoded: "b64decode ''c2VjcmV0Ynl0ZXM='' = Inr ''secretbytes''"
  by (simp add: b64_value_def b64_alphabet_def byte_def)

lemma error_line_eq: "error_line var = ''ERROR: Env var  '' @ var @ ''  not set.''"
  by (simp add: error_line_def)

lemma getEnvVar_None:
  "environ w var = None \<Longrightarrow> getEnvVar w var tr = (Exit 1, tr @ [Print (error_line var)])"
  by (simp add: getEnvVar_def and_then_def print_stmt_def sys_exit_def error_line_def)

lemma getEnvVar_Some: "environ w var = Some val \<Longrightarrow> getEnvVar w var tr = (Return val, tr)"
  by (simp add: getEnvVar_def)

lemma script_missing:
  assumes "missing_var w = Some u"
  shows "script w [] = (Exit 1, [Print (error_line u)])"
  using assms
  by (auto simp: missing_var_def required_vars_def script_def getEnvVar_None getEnvVar_Some
      and_then_def split: if_splits)

lemma run_missing:
  assumes "missing_var w = Some u"
  shows "run w = (Exited 1, [Print (error_line u)])"
  by (simp add: run_def script_missing[OF assms])

lemma missing_var_None:
  assumes "missing_var w = None"
  shows "\<exists>uid sn dn dp svc. env_set w uid sn dn dp svc"
  using assms by (auto simp: missing_var_def required_vars_def env_set_def split: if_splits)

lemma env_set_missing_var: "env_set w uid sn dn dp svc \<Longrightarrow> missing_var w = None"
  by (simp add: missing_var_def required_vars_def env_set_def)

lemma script_env_set:
  assumes "env_set w uid sn dn dp svc"
  shows "script w [] =
     and_then (decode_credential w) (\<lambda>_.
     and_then (connect_and_start w dn dp sn) (\<lambda>_. wlst_exit)) (config_lines dp sn)"
  using assms
  by (simp add: env_set_def script_def getEnvVar_Some and_then_def print_stmt_def config_lines_def)

lemma decode_credential_ok:
  assumes "decode_ok w c d"
  shows "decode_credential w tr = (Return (), tr @ decode_events d)"
  using assms
  by (simp add: decode_ok_def decode_credential_def and_then_def call_def call_value_def
      compute_def decode_events_def)

lemma script_decode_ok:
  assumes "env_set w uid sn dn dp svc" and "decode_ok w c d"
  shows "script w [] =
     and_then (connect_and_start w dn dp sn) (\<lambda>_. wlst_exit) (before_try dp sn d)"
  by (simp add: script_env_set[OF assms(1)] and_then_def decode_credential_ok[OF assms(2)]
      before_try_def)

lemma count_before_try: "length (filter (\<lambda>ev. ev = NmDisconnect) (before_try dp sn d)) = 0"
  by (simp add: before_try_def config_lines_def decode_events_def)

lemma decode_credential_no_exit: "fst (decode_credential w tr) \<noteq> Exit n"
  by (simp add: decode_credential_def and_then_def call_def call_value_def compute_def
      split: option.splits sum.splits)

lemma connect_and_start_no_exit: "fst (connect_and_start w dn dp sn tr) \<noteq> Exit n"
  by (simp add: connect_and_start_def try_except_WLSTException_def try_body_def except_body_def
      nmConnect_def nmStart_def nmDisconnect_def and_then_def call_def print_stmt_def
      split: option.splits exn.splits)

lemma decode_credential_events:
  "\<exists>ys. snd (decode_credential w tr) = tr @ ys \<and> list_all (\<lambda>e. stage e = 1) ys \<and>
     (file_writes ys = [] \<or>
      (\<exists>c d. read_outcome w key_path = Inr c \<and> decodestring w c = Inr d \<and>
             file_writes ys = [(bin_path, d)]))"
  by (simp add: decode_credential_def and_then_def call_def call_value_def compute_def
      split: option.splits sum.splits)

lemma connect_and_start_events:
  "\<exists>ys. snd (connect_and_start w dn dp sn tr) = tr @ ys \<and>
     filter (\<lambda>e. \<not> is_print e) ys \<in>
       {[NmConnect (the_connect_args dn dp)],
        [NmConnect (the_connect_args dn dp), NmDisconnect],
        [NmConnect (the_connect_args dn dp), NmStart sn],
        [NmConnect (the_connect_args dn dp), NmStart sn, NmDisconnect],
        [NmConnect (the_connect_args dn dp), NmStart sn, NmDisconnect, NmDisconnect]}"
  by (simp add: connect_and_start_def try_except_WLSTException_def try_body_def except_body_def
      nmConnect_def nmStart_def nmDisconnect_def and_then_def call_def print_stmt_def
      split: option.splits exn.splits)

lemma run_after_decode:
  assumes "env_set w uid sn dn dp svc" and "decode_ok w c d"
  shows "run w =
     (case connect_and_start w dn dp sn (before_try dp sn d) of
        (Return x, tr) \<Rightarrow> (Exited 0, tr)
      | (Raise e, tr) \<Rightarrow> (Uncaught e, tr)
      | (Exit n, tr) \<Rightarrow> (Exited n, tr))"
  by (simp add: run_def script_decode_ok[OF assms] and_then_def wlst_exit_def
      split: prod.splits res.splits)

lemma try_caught:
  assumes "try_body w dn dp sn tr = (Raise (WLSTException m), tr')"
  shows "connect_and_start w dn dp sn tr =
     (case nmDisconnect_outcome w (length (filter (\<lambda>ev. ev = NmDisconnect) tr')) of
        None \<Rightarrow> (Return (), tr' @ [NmDisconnect, Print m])
      | Some e \<Rightarrow> (Raise e, tr' @ [NmDisconnect]))"
  using assms
  by (simp add: connect_and_start_def try_except_WLSTException_def except_body_def
      nmDisconnect_def and_then_def call_def print_stmt_def split: option.splits)

lemma try_returns:
  assumes "try_body w dn dp sn tr = (Return x, tr')"
  shows "connect_and_start w dn dp sn tr = (Return x, tr')"
  using assms by (simp add: connect_and_start_def try_except_WLSTException_def)

lemma try_body_connect_raises:
  assumes "nmConnect_outcome w (the_connect_args dn dp) = Some e"
  shows "try_body w dn dp sn tr = (Raise e, tr @ [NmConnect (the_connect_args dn dp)])"
  using assms by (simp add: try_body_def nmConnect_def and_then_def call_def)

lemma try_body_start_raises:
  assumes "nmConnect_outcome w (the_connect_args dn dp) = None" and "nmStart_outcome w sn = Some e"
  shows "try_body w dn dp sn tr = (Raise e, tr @ [NmConnect (the_connect_args dn dp), NmStart sn])"
  using assms by (simp add: try_body_def nmConnect_def nmStart_def and_then_def call_def)

lemma try_body_disconnect:
  assumes "nmConnect_outcome w (the_connect_args dn dp) = None" and "nmStart_outcome w sn = None"
  shows "try_body w dn dp sn tr =
     (case nmDisconnect_outcome w (length (filter (\<lambda>ev. ev = NmDisconnect) tr)) of
        None \<Rightarrow> (Return (), tr @ [NmConnect (the_connect_args dn dp), NmStart sn, NmDisconnect])
      | Some e \<Rightarrow> (Raise e, tr @ [NmConnect (the_connect_args dn dp), NmStart sn, NmDisconnect]))"
  using assms
  by (simp add: try_body_def nmConnect_def nmStart_def nmDisconnect_def and_then_def call_def
      split: option.splits)

lemma run_success:
  assumes "env_set w uid sn dn dp svc" and "decode_ok w c d"
    and "nmConnect_outcome w (the_connect_args dn dp) = None" and "nmStart_outcome w sn = None"
    and "nmDisconnect_outcome w 0 = None"
  shows "run w =
     (Exited 0, before_try dp sn d @ [NmConnect (the_connect_args dn dp), NmStart sn, NmDisconnect])"
proof -
  have "try_body w dn dp sn (before_try dp sn d) =
      (Return (), before_try dp sn d @ [NmConnect (the_connect_args dn dp), NmStart sn, NmDisconnect])"
    using assms(5) by (simp add: try_body_disconnect[OF assms(3,4)] count_before_try)
  then show ?thesis
    by (simp add: run_after_decode[OF assms(1,2)] try_returns)
qed

lemma run_connect_caught:
  assumes "env_set w uid sn dn dp svc" and "decode_ok w c d"
    and "nmConnect_outcome w (the_connect_args dn dp) = Some (WLSTException m)"
  shows "run w =
     (case nmDisconnect_outcome w 0 of
        None \<Rightarrow> (Exited 0, before_try dp sn d @
                   [NmConnect (the_connect_args dn dp), NmDisconnect, Print m])
      | Some e \<Rightarrow> (Uncaught e, before_try dp sn d @
                   [NmConnect (the_connect_args dn dp), NmDisconnect]))"
  by (simp add: run_after_decode[OF assms(1,2)]
      try_caught[OF try_body_connect_raises[OF assms(3)]] count_before_try split: option.splits)

lemma run_start_caught:
  assumes "env_set w uid sn dn dp svc" and "decode_ok w c d"
    and "nmConnect_outcome w (the_connect_args dn dp) = None"
    and "nmStart_outcome w sn = Some (WLSTException m)"
  shows "run w =
     (case nmDisconnect_outcome w 0 of
        None \<Rightarrow> (Exited 0, before_try dp sn d @
                   [NmConnect (the_connect_args dn dp), NmStart sn, NmDisconnect, Print m])
      | Some e \<Rightarrow> (Uncaught e, before_try dp sn d @
                   [NmConnect (the_connect_args dn dp), NmStart sn, NmDisconnect]))"
  by (simp add: run_after_decode[OF assms(1,2)]
      try_caught[OF try_body_start_raises[OF assms(3,4)]] count_before_try split: option.splits)

lemma run_disconnect_caught:
  assumes "env_set w uid sn dn dp svc" and "decode_ok w c d"
    and "nmConnect_outcome w (the_connect_args dn dp) = None"
    and "nmStart_outcome w sn = None"
    and "nmDisconnect_outcome w 0 = Some (WLSTException m)"
  shows "run w =
     (case nmDisconnect_outcome w 1 of
        None \<Rightarrow> (Exited 0, before_try dp sn d @
                   [NmConnect (the_connect_args dn dp), NmStart sn, NmDisconnect, NmDisconnect, Print m])
      | Some e \<Rightarrow> (Uncaught e, before_try dp sn d @
                   [NmConnect (the_connect_args dn dp), NmStart sn, NmDisconnect, NmDisconnect]))"
proof -
  have "try_body w dn dp sn (before_try dp sn d) =
      (Raise (WLSTException m),
       before_try dp sn d @ [NmConnect (the_connect_args dn dp), NmStart sn, NmDisconnect])"
    using assms(5) by (simp add: try_body_disconnect[OF assms(3,4)] count_before_try)
  then show ?thesis
    by (simp add: run_after_decode[OF assms(1,2)] try_caught count_before_try split: option.splits)
qed

subsection \<open>Missing environment variables\<close>

text \<open>
  C1. For each of the five required variables: when it is not set, the script prints the
  error line naming a required variable that is not set (the line of \<open>getEnvVar\<close>) and
  ends with exit code 1; that line is the whole trace, so no file was opened, read or
  written and no node manager command was issued.
\<close>

theorem missing_variable_is_fatal:
  assumes "v \<in> set required_vars" and "environ w v = None"
  shows "\<exists>u. u \<in> set required_vars \<and> environ w u = None \<and>
             run w = (Exited 1, [Print (''ERROR: Env var  '' @ u @ ''  not set.'')]) \<and>
             filter is_file_event (snd (run w)) = [] \<and>
             filter is_nm_event (snd (run w)) = []"
proof -
  from assms have "missing_var w \<noteq> None"
    by (auto simp: missing_var_def find_None_iff)
  then obtain u where u: "missing_var w = Some u"
    by auto
  then have "u \<in> set required_vars" and "environ w u = None"
    by (auto simp: missing_var_def find_Some_iff)
  moreover have "run w = (Exited 1, [Print (''ERROR: Env var  '' @ u @ ''  not set.'')])"
    using run_missing[OF u] by (simp add: error_line_eq)
  ultimately show ?thesis
    by auto
qed

theorem missing_variable_is_fatal_witness:
  "run no_home_world = (Exited 1, [Print ''ERROR: Env var  DOMAIN_HOME  not set.''])"
proof -
  have "''DOMAIN_HOME'' \<in> set required_vars"
    by (simp add: required_vars_def)
  moreover have "environ no_home_world ''DOMAIN_HOME'' = None"
    by (simp add: no_home_world_def)
  ultimately obtain u where "u \<in> set required_vars" and "environ no_home_world u = None"
    and r: "run no_home_world = (Exited 1, [Print (''ERROR: Env var  '' @ u @ ''  not set.'')])"
    using missing_variable_is_fatal[of "''DOMAIN_HOME''" no_home_world] by blast
  then have "u = ''DOMAIN_HOME''"
    by (auto simp: required_vars_def no_home_world_def sample_world_def)
  with r show ?thesis
    by simp
qed

lemma sample_env: "env_set sample_world ''uid1'' ''server1'' ''domain1'' ''/shared/domain'' ''svc1''"
  by (simp add: env_set_def sample_world_def)

lemma sample_decode_ok: "decode_ok sample_world ''c2VjcmV0Ynl0ZXM='' ''secretbytes''"
  by (simp add: decode_ok_def sample_world_def sample_decoded del: b64decode.simps)

lemma run_env_set_starts:
  assumes "env_set w uid sn dn dp svc"
  shows "take 2 (snd (run w)) = config_lines dp sn"
proof -
  obtain ys where ys: "snd (decode_credential w (config_lines dp sn)) = config_lines dp sn @ ys"
    using decode_credential_events[of w "config_lines dp sn"] by blast
  obtain r tr where d: "decode_credential w (config_lines dp sn) = (r, tr)"
    by (cases "decode_credential w (config_lines dp sn)")
  with ys have tr: "tr = config_lines dp sn @ ys" by simp
  show ?thesis
  proof (cases r)
    case (Return x)
    obtain zs where zs: "snd (connect_and_start w dn dp sn tr) = tr @ zs"
      using connect_and_start_events[of w dn dp sn tr] by blast
    obtain r' tr' where c: "connect_and_start w dn dp sn tr = (r', tr')"
      by (cases "connect_and_start w dn dp sn tr")
    with zs have "tr' = tr @ zs" by simp
    then show ?thesis
      using d Return c tr
      by (cases r') (simp_all add: run_def script_env_set[OF assms] and_then_def wlst_exit_def config_lines_def)
  next
    case (Raise e)
    then show ?thesis
      using d tr by (simp add: run_def script_env_set[OF assms] and_then_def config_lines_def)
  next
    case (Exit n)
    then show ?thesis
      using d tr by (simp add: run_def script_env_set[OF assms] and_then_def config_lines_def)
  qed
qed

lemma run_env_set_outcome:
  assumes "env_set w uid sn dn dp svc"
  shows "fst (run w) = Exited 0 \<or> (\<exists>e. fst (run w) = Uncaught e)"
proof -
  obtain r tr where d: "decode_credential w (config_lines dp sn) = (r, tr)"
    by (cases "decode_credential w (config_lines dp sn)")
  show ?thesis
  proof (cases r)
    case (Return x)
    obtain r' tr' where c: "connect_and_start w dn dp sn tr = (r', tr')"
      by (cases "connect_and_start w dn dp sn tr")
    have "r' \<noteq> Exit n" for n
      using connect_and_start_no_exit[of w dn dp sn tr n] c by simp
    then show ?thesis
      using d Return c
      by (cases r') (auto simp: run_def script_env_set[OF assms] and_then_def wlst_exit_def)
  next
    case (Raise e)
    then show ?thesis
      using d by (simp add: run_def script_env_set[OF assms] and_then_def)
  next
    case (Exit n)
    then show ?thesis
      using d decode_credential_no_exit[of w "config_lines dp sn" n] by simp
  qed
qed

lemma refused_env: "env_set refused_world ''uid1'' ''server1'' ''domain1'' ''/shared/domain'' ''svc1''"
  by (simp add: env_set_def refused_world_def sample_world_def)

lemma refused_decode_ok: "decode_ok refused_world ''c2VjcmV0Ynl0ZXM='' ''secretbytes''"
  by (simp add: decode_ok_def refused_world_def sample_world_def sample_decoded del: b64decode.simps)

text \<open>
  C10. The variables are looked up in the order \<open>DOMAIN_UID\<close>, \<open>SERVER_NAME\<close>,
  \<open>DOMAIN_NAME\<close>, \<open>DOMAIN_HOME\<close>, \<open>SERVICE_NAME\<close> (\<open>required_vars\<close>): when the variable at
  position \<open>i\<close> is not set and all before it are, the only line printed names that
  variable, whatever the later ones are. A line echoing the domain path or the server name
  is in the trace only when all five are set, and then the two lines are the first two
  events of the run.
\<close>

theorem first_missing_variable_is_named:
  "(i < length required_vars \<and> environ w (required_vars ! i) = None \<and>
      (\<forall>j<i. environ w (required_vars ! j) \<noteq> None) \<longrightarrow>
      run w = (Exited 1, [Print (''ERROR: Env var  '' @ required_vars ! i @ ''  not set.'')])) \<and>
   (Print (''domain path is '' @ dp) \<in> set (snd (run w)) \<or>
    Print (''server name is '' @ sn) \<in> set (snd (run w)) \<longrightarrow>
      (\<forall>v \<in> set required_vars. environ w v \<noteq> None)) \<and>
   ((\<forall>v \<in> set required_vars. environ w v \<noteq> None) \<longrightarrow>
      (\<exists>p s. environ w ''DOMAIN_HOME'' = Some p \<and> environ w ''SERVER_NAME'' = Some s \<and>
         take 2 (snd (run w)) = [Print (''domain path is '' @ p), Print (''server name is '' @ s)]))"
proof (intro conjI impI)
  assume a: "i < length required_vars \<and> environ w (required_vars ! i) = None \<and>
      (\<forall>j<i. environ w (required_vars ! j) \<noteq> None)"
  then have "missing_var w = Some (required_vars ! i)"
    unfolding missing_var_def find_Some_iff by blast
  then show "run w = (Exited 1, [Print (''ERROR: Env var  '' @ required_vars ! i @ ''  not set.'')])"
    using run_missing by (simp add: error_line_eq)
next
  assume p: "Print (''domain path is '' @ dp) \<in> set (snd (run w)) \<or>
    Print (''server name is '' @ sn) \<in> set (snd (run w))"
  show "\<forall>v \<in> set required_vars. environ w v \<noteq> None"
  proof (cases "missing_var w")
    case None
    then show ?thesis by (simp add: missing_var_def find_None_iff)
  next
    case (Some u)
    with p show ?thesis
      by (simp add: run_missing[OF Some] error_line_eq)
  qed
next
  assume "\<forall>v \<in> set required_vars. environ w v \<noteq> None"
  then have "missing_var w = None"
    by (simp add: missing_var_def find_None_iff)
  then obtain uid s dn p svc where e: "env_set w uid s dn p svc"
    using missing_var_None by blast
  then have "take 2 (snd (run w)) = config_lines p s"
    by (rule run_env_set_starts)
  with e show "\<exists>p s. environ w ''DOMAIN_HOME'' = Some p \<and> environ w ''SERVER_NAME'' = Some s \<and>
         take 2 (snd (run w)) = [Print (''domain path is '' @ p), Print (''server name is '' @ s)]"
    by (auto simp: env_set_def config_lines_def)
qed

theorem first_missing_variable_is_named_witness:
  "run two_missing_world = (Exited 1, [Print ''ERROR: Env var  SERVER_NAME  not set.'']) \<and>
   take 2 (snd (run sample_world)) =
     [Print ''domain path is /shared/domain'', Print ''server name is server1'']"
proof -
  have "(1::nat) < length required_vars \<and> environ two_missing_world (required_vars ! 1) = None \<and>
      (\<forall>j<1. environ two_missing_world (required_vars ! j) \<noteq> None)"
    by (simp add: required_vars_def two_missing_world_def sample_world_def)
  with first_missing_variable_is_named[of 1 two_missing_world]
  have "run two_missing_world =
      (Exited 1, [Print (''ERROR: Env var  '' @ required_vars ! 1 @ ''  not set.'')])"
    by blast
  then have first: "run two_missing_world =
      (Exited 1, [Print ''ERROR: Env var  SERVER_NAME  not set.''])"
    by (simp add: required_vars_def)
  have "\<forall>v \<in> set required_vars. environ sample_world v \<noteq> None"
    by (simp add: required_vars_def sample_world_def)
  with first_missing_variable_is_named[of _ sample_world]
  obtain p s where "environ sample_world ''DOMAIN_HOME'' = Some p"
    and "environ sample_world ''SERVER_NAME'' = Some s"
    and "take 2 (snd (run sample_world)) =
      [Print (''domain path is '' @ p), Print (''server name is '' @ s)]"
    by blast
  then have "take 2 (snd (run sample_world)) =
      [Print ''domain path is /shared/domain'', Print ''server name is server1'']"
    by (simp add: sample_world_def)
  with first show ?thesis
    by simp
qed

subsection \<open>Exit codes\<close>

text \<open>
  C2, as stated, fails: with the five variables set and a key file that cannot be opened,
  the \<open>IOError\<close> of \<open>open\<close> is caught by nothing and the run ends by that exception. No
  variable is missing, yet the exit status is 1 and not 0.
\<close>

theorem exit_code_counterexample:
  "missing_var no_key_file_world = None \<and>
   run no_key_file_world =
     (Uncaught (IOError ''No such file or directory''),
      [Print ''domain path is /shared/domain'', Print ''server name is server1'',
       OpenFile ''/weblogic-operator/introspector/userKeyNodeManager.secure'' ''r'']) \<and>
   exit_status (fst (run no_key_file_world)) = 1"
  by (simp add: missing_var_def required_vars_def no_key_file_world_def sample_world_def run_def
      script_def getEnvVar_def and_then_def print_stmt_def decode_credential_def call_def key_path_def)

text \<open>
  C2, amended. When a required variable is not set the script exits with code 1. On every
  other path it either exits with code 0 or is ended by an exception that nothing caught,
  and the exit status of such a run is 1 as well: the status is 1 exactly when a variable
  is not set or an exception went uncaught, and it is 0 exactly when the script exits with
  code 0. It exits with code 0 on the path where every call returns, and equally on the
  path where a \<open>WLSTException\<close> of the connect or the start command was caught and the
  disconnect call of the handler returned.
\<close>

theorem exit_codes:
  "(missing_var w \<noteq> None \<longrightarrow> fst (run w) = Exited 1) \<and>
   (missing_var w = None \<longrightarrow> fst (run w) = Exited 0 \<or> (\<exists>e. fst (run w) = Uncaught e)) \<and>
   ((exit_status (fst (run w)) = 1) =
      (missing_var w \<noteq> None \<or> (\<exists>e. fst (run w) = Uncaught e))) \<and>
   ((exit_status (fst (run w)) = 0) = (fst (run w) = Exited 0)) \<and>
   (env_set w uid sn dn dp svc \<and> decode_ok w c d \<and>
    nmConnect_outcome w (the_connect_args dn dp) = None \<and> nmStart_outcome w sn = None \<and>
    nmDisconnect_outcome w 0 = None \<longrightarrow> fst (run w) = Exited 0) \<and>
   (env_set w uid sn dn dp svc \<and> decode_ok w c d \<and>
    (nmConnect_outcome w (the_connect_args dn dp) = Some (WLSTException m) \<or>
     nmConnect_outcome w (the_connect_args dn dp) = None \<and>
     nmStart_outcome w sn = Some (WLSTException m)) \<and>
    nmDisconnect_outcome w 0 = None \<longrightarrow> fst (run w) = Exited 0)"
proof -
  have not_set: "fst (run w) = Exited 1" if "missing_var w \<noteq> None"
  proof -
    from that obtain u where "missing_var w = Some u"
      by auto
    then show ?thesis
      by (simp add: run_missing)
  qed
  have all_set: "fst (run w) = Exited 0 \<or> (\<exists>e. fst (run w) = Uncaught e)"
    if "missing_var w = None"
  proof -
    from that obtain uid sn dn dp svc where "env_set w uid sn dn dp svc"
      using missing_var_None by blast
    then show ?thesis
      by (rule run_env_set_outcome)
  qed
  have status_one: "(exit_status (fst (run w)) = 1) =
      (missing_var w \<noteq> None \<or> (\<exists>e. fst (run w) = Uncaught e))"
  proof (cases "missing_var w")
    case None
    with all_set show ?thesis
      by auto
  next
    case (Some u)
    with not_set show ?thesis
      by simp
  qed
  have status_zero: "(exit_status (fst (run w)) = 0) = (fst (run w) = Exited 0)"
    by (cases "fst (run w)") simp_all
  have returns: "fst (run w) = Exited 0"
    if "env_set w uid sn dn dp svc \<and> decode_ok w c d \<and>
      nmConnect_outcome w (the_connect_args dn dp) = None \<and> nmStart_outcome w sn = None \<and>
      nmDisconnect_outcome w 0 = None"
    using that run_success[of w uid sn dn dp svc c d] by simp
  have caught: "fst (run w) = Exited 0"
    if a: "env_set w uid sn dn dp svc \<and> decode_ok w c d \<and>
      (nmConnect_outcome w (the_connect_args dn dp) = Some (WLSTException m) \<or>
       nmConnect_outcome w (the_connect_args dn dp) = None \<and>
       nmStart_outcome w sn = Some (WLSTException m)) \<and>
      nmDisconnect_outcome w 0 = None"
  proof -
    from a have e: "env_set w uid sn dn dp svc" and k: "decode_ok w c d"
      and z: "nmDisconnect_outcome w 0 = None"
      by simp_all
    from a consider "nmConnect_outcome w (the_connect_args dn dp) = Some (WLSTException m)"
      | "nmConnect_outcome w (the_connect_args dn dp) = None"
        "nmStart_outcome w sn = Some (WLSTException m)"
      by auto
    then show ?thesis
    proof cases
      case 1
      then show ?thesis using z by (simp add: run_connect_caught[OF e k])
    next
      case 2
      then show ?thesis using z by (simp add: run_start_caught[OF e k])
    qed
  qed
  from not_set all_set status_one status_zero returns caught show ?thesis
    by blast
qed

theorem exit_codes_witness:
  "fst (run refused_world) = Exited 0 \<and> fst (run sample_world) = Exited 0 \<and>
   fst (run no_home_world) = Exited 1 \<and>
   exit_status (fst (run refused_world)) = 0 \<and> exit_status (fst (run no_home_world)) = 1"
proof -
  have refused: "fst (run refused_world) = Exited 0"
    using exit_codes[of refused_world "''uid1''" "''server1''" "''domain1''" "''/shared/domain''"
        "''svc1''" "''c2VjcmV0Ynl0ZXM=''" "''secretbytes''" "''Cannot connect to Node Manager''"]
      refused_env refused_decode_ok
    by (simp add: refused_world_def sample_world_def)
  have sample: "fst (run sample_world) = Exited 0"
    using exit_codes[of sample_world "''uid1''" "''server1''" "''domain1''" "''/shared/domain''"
        "''svc1''" "''c2VjcmV0Ynl0ZXM=''" "''secretbytes''"]
      sample_env sample_decode_ok
    by (simp add: sample_world_def)
  have "missing_var no_home_world = Some ''DOMAIN_HOME''"
    by (simp add: missing_var_def required_vars_def no_home_world_def sample_world_def)
  then have no_home: "fst (run no_home_world) = Exited 1"
    using exit_codes[of no_home_world] by simp
  from refused sample no_home show ?thesis
    by simp
qed

subsection \<open>More facts about the steps\<close>

text \<open>
  The decoder on the test vectors of RFC 4648, section 10.
\<close>

lemma b64decode_rfc4648_vectors:
  "b64decode [] = Inr []"
  "b64decode ''Zg=='' = Inr ''f''"
  "b64decode ''Zm8='' = Inr ''fo''"
  "b64decode ''Zm9v'' = Inr ''foo''"
  "b64decode ''Zm9vYg=='' = Inr ''foob''"
  "b64decode ''Zm9vYmE='' = Inr ''fooba''"
  "b64decode ''Zm9vYmFy'' = Inr ''foobar''"
  by (simp_all add: b64_value_def b64_alphabet_def byte_def)

lemma start_fails_env: "env_set start_fails_world ''uid1'' ''server1'' ''domain1'' ''/shared/domain'' ''svc1''"
  by (simp add: env_set_def start_fails_world_def sample_world_def)

lemma start_fails_decode_ok: "decode_ok start_fails_world ''c2VjcmV0Ynl0ZXM='' ''secretbytes''"
  by (simp add: decode_ok_def start_fails_world_def sample_world_def sample_decoded del: b64decode.simps)

lemma file_writes_append: "file_writes (xs @ ys) = file_writes xs @ file_writes ys"
  by (induction xs rule: file_writes.induct) simp_all

lemma file_writes_filter: "file_writes (filter (\<lambda>e. \<not> is_print e) xs) = file_writes xs"
  by (induction xs rule: file_writes.induct) simp_all

lemma connect_and_start_writes:
  "file_writes (snd (connect_and_start w dn dp sn tr)) = file_writes tr"
proof -
  obtain ys where ys: "snd (connect_and_start w dn dp sn tr) = tr @ ys"
    and sh: "filter (\<lambda>e. \<not> is_print e) ys \<in>
       {[NmConnect (the_connect_args dn dp)],
        [NmConnect (the_connect_args dn dp), NmDisconnect],
        [NmConnect (the_connect_args dn dp), NmStart sn],
        [NmConnect (the_connect_args dn dp), NmStart sn, NmDisconnect],
        [NmConnect (the_connect_args dn dp), NmStart sn, NmDisconnect, NmDisconnect]}"
    using connect_and_start_events[of w dn dp sn tr] by blast
  from sh have "file_writes (filter (\<lambda>e. \<not> is_print e) ys) = []"
    by auto
  then have "file_writes ys = []"
    by (simp add: file_writes_filter)
  with ys show ?thesis
    by (simp add: file_writes_append)
qed

lemma decode_credential_opened:
  assumes "open_outcome w key_path ''r'' = None" and "read_outcome w key_path = Inr c"
    and "close_outcome w key_path = None" and "decodestring w c = Inr d"
    and "open_outcome w bin_path ''wb'' = None"
  shows "file_writes (snd (decode_credential w tr)) = file_writes tr @ [(bin_path, d)] \<and>
         (\<forall>n. fst (decode_credential w tr) \<noteq> Exit n)"
  using assms
  by (simp add: decode_credential_def and_then_def call_def call_value_def compute_def
      file_writes_append split: option.splits)

lemma nm_before_try: "filter is_nm_event (before_try dp sn d) = []"
  by (simp add: before_try_def config_lines_def decode_events_def)

lemma stage_one_sorted:
  assumes "list_all (\<lambda>e. stage e = 1) ys"
  shows "sorted (map stage (filter P ys)) \<and> (\<forall>e \<in> set (filter P ys). stage e = 1)"
  using assms by (induction ys) auto

lemma nm_shape_sorted:
  assumes "fs \<in>
       {[NmConnect a], [NmConnect a, NmDisconnect], [NmConnect a, NmStart sn],
        [NmConnect a, NmStart sn, NmDisconnect],
        [NmConnect a, NmStart sn, NmDisconnect, NmDisconnect]}"
  shows "sorted (map stage fs) \<and> (\<forall>e \<in> set fs. 1 \<le> stage e)"
  using assms by auto

subsection \<open>The credential file\<close>

text \<open>
  C4. When the five variables are set, the key file is opened, read and closed, its text
  is valid base64 (the standard decoding \<open>b64decode\<close> yields \<open>bytes\<close>), the library
  routine agrees with the standard decoding on that text, and the binary file is opened,
  then the run hands exactly one piece of data to a file: \<open>bytes\<close>, to
  \<open>/tmp/userKeyNodeManager.secure.bin\<close>. This holds whatever the node manager answers
  afterwards.
\<close>

theorem written_bytes_are_the_decoded_key:
  assumes "env_set w uid sn dn dp svc"
    and "open_outcome w key_path ''r'' = None"
    and "read_outcome w key_path = Inr contents"
    and "close_outcome w key_path = None"
    and "b64decode contents = Inr bytes"
    and "decodestring w contents = b64decode contents"
    and "open_outcome w bin_path ''wb'' = None"
  shows "file_writes (snd (run w)) = [(''/tmp/userKeyNodeManager.secure.bin'', bytes)]"
proof -
  have dec: "decodestring w contents = Inr bytes"
    using assms(5,6) by simp
  obtain r tr where d: "decode_credential w (config_lines dp sn) = (r, tr)"
    by (cases "decode_credential w (config_lines dp sn)")
  have tr: "file_writes tr = [(bin_path, bytes)]"
    using decode_credential_opened[OF assms(2,3,4) dec assms(7), of "config_lines dp sn"] d
    by (simp add: config_lines_def)
  have "file_writes (snd (run w)) = [(bin_path, bytes)]"
  proof (cases r)
    case (Return x)
    obtain r' tr' where c: "connect_and_start w dn dp sn tr = (r', tr')"
      by (cases "connect_and_start w dn dp sn tr")
    then have "file_writes tr' = file_writes tr"
      using connect_and_start_writes[of w dn dp sn tr] by simp
    then show ?thesis
      using d Return c tr
      by (cases r') (simp_all add: run_def script_env_set[OF assms(1)] and_then_def wlst_exit_def)
  next
    case (Raise e)
    then show ?thesis
      using d tr by (simp add: run_def script_env_set[OF assms(1)] and_then_def)
  next
    case (Exit n)
    then show ?thesis
      using d tr by (simp add: run_def script_env_set[OF assms(1)] and_then_def)
  qed
  then show ?thesis
    by (simp add: bin_path_def)
qed

theorem written_bytes_are_the_decoded_key_witness:
  "file_writes (snd (run sample_world)) = [(''/tmp/userKeyNodeManager.secure.bin'', ''secretbytes'')]"
proof -
  have "open_outcome sample_world key_path ''r'' = None"
    and "read_outcome sample_world key_path = Inr ''c2VjcmV0Ynl0ZXM=''"
    and "close_outcome sample_world key_path = None"
    and "decodestring sample_world ''c2VjcmV0Ynl0ZXM='' = b64decode ''c2VjcmV0Ynl0ZXM=''"
    and "open_outcome sample_world bin_path ''wb'' = None"
    by (simp_all add: sample_world_def del: b64decode.simps)
  then show ?thesis
    using written_bytes_are_the_decoded_key[OF sample_env _ _ _ sample_decoded]
    by blast
qed

text \<open>
  C8. With the five variables set: when the key file cannot be opened, or cannot be read,
  or the binary file cannot be opened, or cannot be written, the \<open>IOError\<close> of that call
  ends the run uncaught. The failing call is the last event of the trace: it is issued
  once, nothing is issued after it, and no node manager command is reached.
\<close>

theorem io_errors_propagate:
  assumes "env_set w uid sn dn dp svc"
  shows "(open_outcome w key_path ''r'' = Some (IOError m) \<longrightarrow>
            run w = (Uncaught (IOError m), config_lines dp sn @ [OpenFile key_path ''r''])) \<and>
         (open_outcome w key_path ''r'' = None \<and> read_outcome w key_path = Inl (IOError m) \<longrightarrow>
            run w = (Uncaught (IOError m),
                     config_lines dp sn @ [OpenFile key_path ''r'', ReadFile key_path])) \<and>
         (open_outcome w key_path ''r'' = None \<and> read_outcome w key_path = Inr c \<and>
          close_outcome w key_path = None \<and> decodestring w c = Inr d \<and>
          open_outcome w bin_path ''wb'' = Some (IOError m) \<longrightarrow>
            run w = (Uncaught (IOError m),
                     config_lines dp sn @ [OpenFile key_path ''r'', ReadFile key_path,
                       CloseFile key_path, OpenFile bin_path ''wb''])) \<and>
         (open_outcome w key_path ''r'' = None \<and> read_outcome w key_path = Inr c \<and>
          close_outcome w key_path = None \<and> decodestring w c = Inr d \<and>
          open_outcome w bin_path ''wb'' = None \<and> write_outcome w bin_path d = Some (IOError m) \<longrightarrow>
            run w = (Uncaught (IOError m),
                     config_lines dp sn @ [OpenFile key_path ''r'', ReadFile key_path,
                       CloseFile key_path, OpenFile bin_path ''wb'', WriteFile bin_path d]))"
proof -
  have run: "run w =
      (case decode_credential w (config_lines dp sn) of
         (Return x, tr) \<Rightarrow>
           (case connect_and_start w dn dp sn tr of
              (Return y, tr') \<Rightarrow> (Exited 0, tr')
            | (Raise e, tr') \<Rightarrow> (Uncaught e, tr')
            | (Exit n, tr') \<Rightarrow> (Exited n, tr'))
       | (Raise e, tr) \<Rightarrow> (Uncaught e, tr)
       | (Exit n, tr) \<Rightarrow> (Exited n, tr))"
    by (simp add: run_def script_env_set[OF assms] and_then_def wlst_exit_def
        split: prod.splits res.splits)
  have key_open: "decode_credential w tr = (Raise (IOError m), tr @ [OpenFile key_path ''r''])"
    if "open_outcome w key_path ''r'' = Some (IOError m)" for tr
    using that by (simp add: decode_credential_def and_then_def call_def)
  have key_read: "decode_credential w tr =
      (Raise (IOError m), tr @ [OpenFile key_path ''r'', ReadFile key_path])"
    if "open_outcome w key_path ''r'' = None \<and> read_outcome w key_path = Inl (IOError m)" for tr
    using that by (simp add: decode_credential_def and_then_def call_def call_value_def)
  have bin_open: "decode_credential w tr =
      (Raise (IOError m), tr @ [OpenFile key_path ''r'', ReadFile key_path, CloseFile key_path,
         OpenFile bin_path ''wb''])"
    if "open_outcome w key_path ''r'' = None \<and> read_outcome w key_path = Inr c \<and>
        close_outcome w key_path = None \<and> decodestring w c = Inr d \<and>
        open_outcome w bin_path ''wb'' = Some (IOError m)" for tr
    using that
    by (simp add: decode_credential_def and_then_def call_def call_value_def compute_def)
  have bin_write: "decode_credential w tr =
      (Raise (IOError m), tr @ [OpenFile key_path ''r'', ReadFile key_path, CloseFile key_path,
         OpenFile bin_path ''wb'', WriteFile bin_path d])"
    if "open_outcome w key_path ''r'' = None \<and> read_outcome w key_path = Inr c \<and>
        close_outcome w key_path = None \<and> decodestring w c = Inr d \<and>
        open_outcome w bin_path ''wb'' = None \<and> write_outcome w bin_path d = Some (IOError m)" for tr
    using that
    by (simp add: decode_credential_def and_then_def call_def call_value_def compute_def)
  show ?thesis
    by (intro conjI impI) (simp_all add: run key_open key_read bin_open bin_write)
qed

theorem io_errors_propagate_witness:
  "run no_key_file_world =
     (Uncaught (IOError ''No such file or directory''),
      [Print ''domain path is /shared/domain'', Print ''server name is server1'',
       OpenFile ''/weblogic-operator/introspector/userKeyNodeManager.secure'' ''r'']) \<and>
   run key_unreadable_world =
     (Uncaught (IOError ''Input/output error''),
      [Print ''domain path is /shared/domain'', Print ''server name is server1'',
       OpenFile ''/weblogic-operator/introspector/userKeyNodeManager.secure'' ''r'',
       ReadFile ''/weblogic-operator/introspector/userKeyNodeManager.secure'']) \<and>
   run tmp_unwritable_world =
     (Uncaught (IOError ''Permission denied''),
      [Print ''domain path is /shared/domain'', Print ''server name is server1'',
       OpenFile ''/weblogic-operator/introspector/userKeyNodeManager.secure'' ''r'',
       ReadFile ''/weblogic-operator/introspector/userKeyNodeManager.secure'',
       CloseFile ''/weblogic-operator/introspector/userKeyNodeManager.secure'',
       OpenFile ''/tmp/userKeyNodeManager.secure.bin'' ''wb'']) \<and>
   run disk_full_world =
     (Uncaught (IOError ''No space left on device''),
      [Print ''domain path is /shared/domain'', Print ''server name is server1'',
       OpenFile ''/weblogic-operator/introspector/userKeyNodeManager.secure'' ''r'',
       ReadFile ''/weblogic-operator/introspector/userKeyNodeManager.secure'',
       CloseFile ''/weblogic-operator/introspector/userKeyNodeManager.secure'',
       OpenFile ''/tmp/userKeyNodeManager.secure.bin'' ''wb'',
       WriteFile ''/tmp/userKeyNodeManager.secure.bin'' ''secretbytes''])"
proof -
  have e1: "env_set no_key_file_world ''uid1'' ''server1'' ''domain1'' ''/shared/domain'' ''svc1''"
    by (simp add: env_set_def no_key_file_world_def sample_world_def)
  have "open_outcome no_key_file_world key_path ''r'' = Some (IOError ''No such file or directory'')"
    by (simp add: no_key_file_world_def)
  with io_errors_propagate[OF e1, of "''No such file or directory''"]
  have r1: "run no_key_file_world = (Uncaught (IOError ''No such file or directory''),
      config_lines ''/shared/domain'' ''server1'' @ [OpenFile key_path ''r''])"
    by blast
  have e2: "env_set key_unreadable_world ''uid1'' ''server1'' ''domain1'' ''/shared/domain'' ''svc1''"
    by (simp add: env_set_def key_unreadable_world_def sample_world_def)
  have "open_outcome key_unreadable_world key_path ''r'' = None \<and>
      read_outcome key_unreadable_world key_path = Inl (IOError ''Input/output error'')"
    by (simp add: key_unreadable_world_def sample_world_def)
  with io_errors_propagate[OF e2, of "''Input/output error''"]
  have r2: "run key_unreadable_world = (Uncaught (IOError ''Input/output error''),
      config_lines ''/shared/domain'' ''server1'' @ [OpenFile key_path ''r'', ReadFile key_path])"
    by blast
  have e3: "env_set tmp_unwritable_world ''uid1'' ''server1'' ''domain1'' ''/shared/domain'' ''svc1''"
    by (simp add: env_set_def tmp_unwritable_world_def sample_world_def)
  have "open_outcome tmp_unwritable_world key_path ''r'' = None \<and>
      read_outcome tmp_unwritable_world key_path = Inr ''c2VjcmV0Ynl0ZXM='' \<and>
      close_outcome tmp_unwritable_world key_path = None \<and>
      decodestring tmp_unwritable_world ''c2VjcmV0Ynl0ZXM='' = Inr ''secretbytes'' \<and>
      open_outcome tmp_unwritable_world bin_path ''wb'' = Some (IOError ''Permission denied'')"
    by (simp add: tmp_unwritable_world_def sample_world_def sample_decoded key_path_def bin_path_def
        del: b64decode.simps)
  with io_errors_propagate[OF e3, of "''Permission denied''" "''c2VjcmV0Ynl0ZXM=''" "''secretbytes''"]
  have r3: "run tmp_unwritable_world = (Uncaught (IOError ''Permission denied''),
      config_lines ''/shared/domain'' ''server1'' @ [OpenFile key_path ''r'', ReadFile key_path,
        CloseFile key_path, OpenFile bin_path ''wb''])"
    by blast
  have e4: "env_set disk_full_world ''uid1'' ''server1'' ''domain1'' ''/shared/domain'' ''svc1''"
    by (simp add: env_set_def disk_full_world_def sample_world_def)
  have "open_outcome disk_full_world key_path ''r'' = None \<and>
      read_outcome disk_full_world key_path = Inr ''c2VjcmV0Ynl0ZXM='' \<and>
      close_outcome disk_full_world key_path = None \<and>
      decodestring disk_full_world ''c2VjcmV0Ynl0ZXM='' = Inr ''secretbytes'' \<and>
      open_outcome disk_full_world bin_path ''wb'' = None \<and>
      write_outcome disk_full_world bin_path ''secretbytes'' =
        Some (IOError ''No space left on device'')"
    by (simp add: disk_full_world_def sample_world_def sample_decoded del: b64decode.simps)
  with io_errors_propagate[OF e4, of "''No space left on device''" "''c2VjcmV0Ynl0ZXM=''"
      "''secretbytes''"]
  have r4: "run disk_full_world = (Uncaught (IOError ''No space left on device''),
      config_lines ''/shared/domain'' ''server1'' @ [OpenFile key_path ''r'', ReadFile key_path,
        CloseFile key_path, OpenFile bin_path ''wb'', WriteFile bin_path ''secretbytes''])"
    by blast
  from r1 r2 r3 r4 show ?thesis
    by (simp add: config_lines_def key_path_def bin_path_def)
qed

subsection \<open>Connecting and starting\<close>

text \<open>
  C6. Every \<open>nmConnect\<close> call of every run carries the fixed host, port, connection
  type, user configuration file and user key file, together with the values of
  \<open>DOMAIN_NAME\<close> and \<open>DOMAIN_HOME\<close> as domain name and domain directory.
\<close>

theorem connect_arguments:
  assumes "NmConnect a \<in> set (snd (run w))"
  shows "host a = ''127.0.0.1'' \<and> port a = ''5556'' \<and> nmType a = ''plain'' \<and>
         userConfigFile a = ''/weblogic-operator/introspector/userConfigNodeManager.secure'' \<and>
         userKeyFile a = ''/tmp/userKeyNodeManager.secure.bin'' \<and>
         environ w ''DOMAIN_NAME'' = Some (domainName a) \<and>
         environ w ''DOMAIN_HOME'' = Some (domainDir a)"
proof (cases "missing_var w")
  case (Some u)
  with assms show ?thesis
    by (simp add: run_missing[OF Some])
next
  case None
  then obtain uid sn dn dp svc where e: "env_set w uid sn dn dp svc"
    using missing_var_None by blast
  obtain ys where ys: "snd (decode_credential w (config_lines dp sn)) = config_lines dp sn @ ys"
    and st: "list_all (\<lambda>e. stage e = 1) ys"
    using decode_credential_events[of w "config_lines dp sn"] by blast
  obtain r tr where d: "decode_credential w (config_lines dp sn) = (r, tr)"
    by (cases "decode_credential w (config_lines dp sn)")
  with ys have tr: "tr = config_lines dp sn @ ys" by simp
  have notin: "NmConnect a \<notin> set tr"
    using st by (auto simp: tr config_lines_def list_all_iff)
  have "a = the_connect_args dn dp"
  proof (cases r)
    case (Return x)
    obtain zs where zs: "snd (connect_and_start w dn dp sn tr) = tr @ zs"
      and sh: "filter (\<lambda>e. \<not> is_print e) zs \<in>
       {[NmConnect (the_connect_args dn dp)],
        [NmConnect (the_connect_args dn dp), NmDisconnect],
        [NmConnect (the_connect_args dn dp), NmStart sn],
        [NmConnect (the_connect_args dn dp), NmStart sn, NmDisconnect],
        [NmConnect (the_connect_args dn dp), NmStart sn, NmDisconnect, NmDisconnect]}"
      using connect_and_start_events[of w dn dp sn tr] by blast
    obtain r' tr' where c: "connect_and_start w dn dp sn tr = (r', tr')"
      by (cases "connect_and_start w dn dp sn tr")
    with zs have tr': "tr' = tr @ zs" by simp
    have "snd (run w) = tr'"
      using d Return c
      by (cases r') (simp_all add: run_def script_env_set[OF e] and_then_def wlst_exit_def)
    with assms notin tr' have "NmConnect a \<in> set zs"
      by simp
    define fs where "fs = filter (\<lambda>e. \<not> is_print e) zs"
    have "NmConnect a \<in> set fs"
      using \<open>NmConnect a \<in> set zs\<close> by (simp add: fs_def)
    moreover have "fs \<in>
       {[NmConnect (the_connect_args dn dp)],
        [NmConnect (the_connect_args dn dp), NmDisconnect],
        [NmConnect (the_connect_args dn dp), NmStart sn],
        [NmConnect (the_connect_args dn dp), NmStart sn, NmDisconnect],
        [NmConnect (the_connect_args dn dp), NmStart sn, NmDisconnect, NmDisconnect]}"
      using sh by (simp add: fs_def)
    ultimately show ?thesis
      by auto
  next
    case (Raise x)
    then have "snd (run w) = tr"
      using d by (simp add: run_def script_env_set[OF e] and_then_def)
    with assms notin show ?thesis by simp
  next
    case (Exit n)
    then have "snd (run w) = tr"
      using d by (simp add: run_def script_env_set[OF e] and_then_def)
    with assms notin show ?thesis by simp
  qed
  with e show ?thesis
    by (simp add: the_connect_args_def env_set_def config_path_def bin_path_def)
qed

theorem connect_arguments_witness:
  "NmConnect \<lparr>userConfigFile = ''/weblogic-operator/introspector/userConfigNodeManager.secure'',
              userKeyFile = ''/tmp/userKeyNodeManager.secure.bin'',
              host = ''127.0.0.1'', port = ''5556'', domainName = ''domain1'',
              domainDir = ''/shared/domain'', nmType = ''plain''\<rparr>
     \<in> set (snd (run sample_world)) \<and>
   environ sample_world ''DOMAIN_NAME'' = Some ''domain1'' \<and>
   environ sample_world ''DOMAIN_HOME'' = Some ''/shared/domain''"
proof -
  have c: "nmConnect_outcome sample_world (the_connect_args ''domain1'' ''/shared/domain'') = None"
    and s: "nmStart_outcome sample_world ''server1'' = None"
    and z: "nmDisconnect_outcome sample_world 0 = None"
    by (simp_all add: sample_world_def)
  have "NmConnect (the_connect_args ''domain1'' ''/shared/domain'') \<in> set (snd (run sample_world))"
    by (simp add: run_success[OF sample_env sample_decode_ok c s z])
  from this connect_arguments[OF this] show ?thesis
    by (simp add: the_connect_args_def config_path_def bin_path_def)
qed

text \<open>
  C5, as stated, fails: with the five variables set and the connection accepted, a
  \<open>WLSTException\<close> raised by the \<open>nmDisconnect\<close> of line 51 is caught by the handler,
  which calls \<open>nmDisconnect\<close> again. The run issues two disconnect calls.
\<close>

theorem double_disconnect_counterexample:
  "env_set disconnect_fails_world ''uid1'' ''server1'' ''domain1'' ''/shared/domain'' ''svc1'' \<and>
   nmConnect_outcome disconnect_fails_world (the_connect_args ''domain1'' ''/shared/domain'') = None \<and>
   filter is_nm_event (snd (run disconnect_fails_world)) =
     [NmConnect (the_connect_args ''domain1'' ''/shared/domain''), NmStart ''server1'',
      NmDisconnect, NmDisconnect]"
proof -
  have e: "env_set disconnect_fails_world ''uid1'' ''server1'' ''domain1'' ''/shared/domain'' ''svc1''"
    by (simp add: env_set_def disconnect_fails_world_def sample_world_def)
  have k: "decode_ok disconnect_fails_world ''c2VjcmV0Ynl0ZXM='' ''secretbytes''"
    by (simp add: decode_ok_def disconnect_fails_world_def sample_world_def sample_decoded
        del: b64decode.simps)
  have c: "nmConnect_outcome disconnect_fails_world (the_connect_args ''domain1'' ''/shared/domain'') = None"
    by (simp add: disconnect_fails_world_def sample_world_def)
  have s: "nmStart_outcome disconnect_fails_world ''server1'' = None"
    by (simp add: disconnect_fails_world_def sample_world_def)
  have z: "nmDisconnect_outcome disconnect_fails_world 0 = Some (WLSTException ''Connection lost'')"
    by (simp add: disconnect_fails_world_def)
  have z1: "nmDisconnect_outcome disconnect_fails_world 1 = None"
    by (simp add: disconnect_fails_world_def)
  show ?thesis
    using e c z1 by (simp add: run_disconnect_caught[OF e k c s z] nm_before_try)
qed

text \<open>
  C5, amended. When the five variables are set, the decoding step succeeds, the endpoint
  accepts the connection, the start command returns or raises a \<open>WLSTException\<close>, and
  the disconnect call that follows a returning start command does not raise a
  \<open>WLSTException\<close>, the node manager commands of the run are exactly: the connect call,
  one start command naming the server of \<open>SERVER_NAME\<close>, one disconnect call.
\<close>

theorem one_start_then_one_disconnect:
  assumes "env_set w uid sn dn dp svc" and "decode_ok w c d"
    and "nmConnect_outcome w (the_connect_args dn dp) = None"
    and "nmStart_outcome w sn = None \<or> (\<exists>m. nmStart_outcome w sn = Some (WLSTException m))"
    and "nmStart_outcome w sn = None \<longrightarrow> (\<forall>m. nmDisconnect_outcome w 0 \<noteq> Some (WLSTException m))"
  shows "filter is_nm_event (snd (run w)) =
           [NmConnect (the_connect_args dn dp), NmStart sn, NmDisconnect]"
proof (cases "nmStart_outcome w sn")
  case None
  show ?thesis
  proof (cases "nmDisconnect_outcome w 0")
    case None
    with \<open>nmStart_outcome w sn = None\<close> show ?thesis
      by (simp add: run_success[OF assms(1,2,3)] nm_before_try)
  next
    case (Some e)
    with assms(5) \<open>nmStart_outcome w sn = None\<close> have nw: "\<forall>m. e \<noteq> WLSTException m"
      by simp
    have "try_body w dn dp sn (before_try dp sn d) =
        (Raise e, before_try dp sn d @ [NmConnect (the_connect_args dn dp), NmStart sn, NmDisconnect])"
      using Some by (simp add: try_body_disconnect[OF assms(3) \<open>nmStart_outcome w sn = None\<close>]
          count_before_try)
    then have "connect_and_start w dn dp sn (before_try dp sn d) =
        (Raise e, before_try dp sn d @ [NmConnect (the_connect_args dn dp), NmStart sn, NmDisconnect])"
      using nw by (cases e) (simp_all add: connect_and_start_def try_except_WLSTException_def)
    then show ?thesis
      by (simp add: run_after_decode[OF assms(1,2)] nm_before_try)
  qed
next
  case (Some e)
  with assms(4) obtain m where m: "nmStart_outcome w sn = Some (WLSTException m)"
    by auto
  show ?thesis
    by (cases "nmDisconnect_outcome w 0")
      (simp_all add: run_start_caught[OF assms(1,2,3) m] nm_before_try)
qed

theorem one_start_then_one_disconnect_witness:
  "filter is_nm_event (snd (run start_fails_world)) =
     [NmConnect (the_connect_args ''domain1'' ''/shared/domain''), NmStart ''server1'', NmDisconnect]"
proof -
  have c: "nmConnect_outcome start_fails_world (the_connect_args ''domain1'' ''/shared/domain'') = None"
    by (simp add: start_fails_world_def sample_world_def)
  have s: "nmStart_outcome start_fails_world ''server1'' = None \<or>
      (\<exists>m. nmStart_outcome start_fails_world ''server1'' = Some (WLSTException m))"
    by (simp add: start_fails_world_def)
  have z: "nmStart_outcome start_fails_world ''server1'' = None \<longrightarrow>
      (\<forall>m. nmDisconnect_outcome start_fails_world 0 \<noteq> Some (WLSTException m))"
    by (simp add: start_fails_world_def)
  show ?thesis
    using one_start_then_one_disconnect[OF start_fails_env start_fails_decode_ok c s z] .
qed

text \<open>
  C3, as stated, fails: the start command raises a \<open>WLSTException\<close>, which is caught;
  the disconnect call of the handler raises in turn. The text of the caught exception is
  not printed and the run ends by the second exception, not with exit code 0.
\<close>

theorem failed_cleanup_counterexample:
  "nmStart_outcome start_and_cleanup_fail_world ''server1'' =
     Some (WLSTException ''Error starting server'') \<and>
   run start_and_cleanup_fail_world =
     (Uncaught (WLSTException ''Error disconnecting''),
      [Print ''domain path is /shared/domain'', Print ''server name is server1'',
       OpenFile ''/weblogic-operator/introspector/userKeyNodeManager.secure'' ''r'',
       ReadFile ''/weblogic-operator/introspector/userKeyNodeManager.secure'',
       CloseFile ''/weblogic-operator/introspector/userKeyNodeManager.secure'',
       OpenFile ''/tmp/userKeyNodeManager.secure.bin'' ''wb'',
       WriteFile ''/tmp/userKeyNodeManager.secure.bin'' ''secretbytes'',
       CloseFile ''/tmp/userKeyNodeManager.secure.bin'',
       NmConnect (the_connect_args ''domain1'' ''/shared/domain''),
       NmStart ''server1'',
       NmDisconnect])"
proof -
  let ?w = start_and_cleanup_fail_world
  have e: "env_set ?w ''uid1'' ''server1'' ''domain1'' ''/shared/domain'' ''svc1''"
    by (simp add: env_set_def start_and_cleanup_fail_world_def sample_world_def)
  have k: "decode_ok ?w ''c2VjcmV0Ynl0ZXM='' ''secretbytes''"
    by (simp add: decode_ok_def start_and_cleanup_fail_world_def sample_world_def sample_decoded
        del: b64decode.simps)
  have c: "nmConnect_outcome ?w (the_connect_args ''domain1'' ''/shared/domain'') = None"
    by (simp add: start_and_cleanup_fail_world_def sample_world_def)
  have s: "nmStart_outcome ?w ''server1'' = Some (WLSTException ''Error starting server'')"
    by (simp add: start_and_cleanup_fail_world_def)
  have z: "nmDisconnect_outcome ?w 0 = Some (WLSTException ''Error disconnecting'')"
    by (simp add: start_and_cleanup_fail_world_def)
  show ?thesis
    using s z by (simp add: run_start_caught[OF e k c s] before_try_def config_lines_def
        decode_events_def key_path_def bin_path_def)
qed

text \<open>
  C3, amended. With the five variables set and the decoding step done: a
  \<open>WLSTException\<close> raised by the connect call, or by the start command, is caught and a
  disconnect call is issued; when that call returns, the text of the exception is printed
  and the process exits with code 0.
\<close>

theorem caught_failure_is_reported:
  assumes "env_set w uid sn dn dp svc" and "decode_ok w c d"
    and "nmDisconnect_outcome w 0 = None"
  shows "(nmConnect_outcome w (the_connect_args dn dp) = Some (WLSTException m) \<longrightarrow>
            run w = (Exited 0, before_try dp sn d @
                      [NmConnect (the_connect_args dn dp), NmDisconnect, Print m])) \<and>
         (nmConnect_outcome w (the_connect_args dn dp) = None \<and>
          nmStart_outcome w sn = Some (WLSTException m) \<longrightarrow>
            run w = (Exited 0, before_try dp sn d @
                      [NmConnect (the_connect_args dn dp), NmStart sn, NmDisconnect, Print m]))"
proof (intro conjI impI)
  assume "nmConnect_outcome w (the_connect_args dn dp) = Some (WLSTException m)"
  then have "try_body w dn dp sn (before_try dp sn d) =
      (Raise (WLSTException m), before_try dp sn d @ [NmConnect (the_connect_args dn dp)])"
    by (rule try_body_connect_raises)
  then have "connect_and_start w dn dp sn (before_try dp sn d) =
      (Return (), before_try dp sn d @ [NmConnect (the_connect_args dn dp), NmDisconnect, Print m])"
    using assms(3) by (simp add: try_caught count_before_try)
  then show "run w = (Exited 0, before_try dp sn d @
      [NmConnect (the_connect_args dn dp), NmDisconnect, Print m])"
    by (simp add: run_after_decode[OF assms(1,2)])
next
  assume "nmConnect_outcome w (the_connect_args dn dp) = None \<and>
      nmStart_outcome w sn = Some (WLSTException m)"
  then have "try_body w dn dp sn (before_try dp sn d) =
      (Raise (WLSTException m),
       before_try dp sn d @ [NmConnect (the_connect_args dn dp), NmStart sn])"
    by (simp add: try_body_start_raises)
  then have "connect_and_start w dn dp sn (before_try dp sn d) =
      (Return (), before_try dp sn d @
         [NmConnect (the_connect_args dn dp), NmStart sn, NmDisconnect, Print m])"
    using assms(3) by (simp add: try_caught count_before_try)
  then show "run w = (Exited 0, before_try dp sn d @
      [NmConnect (the_connect_args dn dp), NmStart sn, NmDisconnect, Print m])"
    by (simp add: run_after_decode[OF assms(1,2)])
qed

theorem caught_failure_is_reported_witness:
  "run refused_world =
     (Exited 0,
      [Print ''domain path is /shared/domain'', Print ''server name is server1'',
       OpenFile ''/weblogic-operator/introspector/userKeyNodeManager.secure'' ''r'',
       ReadFile ''/weblogic-operator/introspector/userKeyNodeManager.secure'',
       CloseFile ''/weblogic-operator/introspector/userKeyNodeManager.secure'',
       OpenFile ''/tmp/userKeyNodeManager.secure.bin'' ''wb'',
       WriteFile ''/tmp/userKeyNodeManager.secure.bin'' ''secretbytes'',
       CloseFile ''/tmp/userKeyNodeManager.secure.bin'',
       NmConnect (the_connect_args ''domain1'' ''/shared/domain''),
       NmDisconnect,
       Print ''Cannot connect to Node Manager'']) \<and>
   run start_fails_world =
     (Exited 0,
      [Print ''domain path is /shared/domain'', Print ''server name is server1'',
       OpenFile ''/weblogic-operator/introspector/userKeyNodeManager.secure'' ''r'',
       ReadFile ''/weblogic-operator/introspector/userKeyNodeManager.secure'',
       CloseFile ''/weblogic-operator/introspector/userKeyNodeManager.secure'',
       OpenFile ''/tmp/userKeyNodeManager.secure.bin'' ''wb'',
       WriteFile ''/tmp/userKeyNodeManager.secure.bin'' ''secretbytes'',
       CloseFile ''/tmp/userKeyNodeManager.secure.bin'',
       NmConnect (the_connect_args ''domain1'' ''/shared/domain''),
       NmStart ''server1'',
       NmDisconnect,
       Print ''Error starting server''])"
proof -
  have z: "nmDisconnect_outcome refused_world 0 = None"
    by (simp add: refused_world_def sample_world_def)
  have c: "nmConnect_outcome refused_world (the_connect_args ''domain1'' ''/shared/domain'') =
      Some (WLSTException ''Cannot connect to Node Manager'')"
    by (simp add: refused_world_def)
  have first: "run refused_world =
      (Exited 0, before_try ''/shared/domain'' ''server1'' ''secretbytes'' @
        [NmConnect (the_connect_args ''domain1'' ''/shared/domain''), NmDisconnect,
         Print ''Cannot connect to Node Manager''])"
    using caught_failure_is_reported[OF refused_env refused_decode_ok z,
        of "''Cannot connect to Node Manager''"] c
    by blast
  have z': "nmDisconnect_outcome start_fails_world 0 = None"
    by (simp add: start_fails_world_def sample_world_def)
  have s': "nmConnect_outcome start_fails_world (the_connect_args ''domain1'' ''/shared/domain'') = None \<and>
      nmStart_outcome start_fails_world ''server1'' = Some (WLSTException ''Error starting server'')"
    by (simp add: start_fails_world_def sample_world_def)
  have second: "run start_fails_world =
      (Exited 0, before_try ''/shared/domain'' ''server1'' ''secretbytes'' @
        [NmConnect (the_connect_args ''domain1'' ''/shared/domain''), NmStart ''server1'',
         NmDisconnect, Print ''Error starting server''])"
    using caught_failure_is_reported[OF start_fails_env start_fails_decode_ok z',
        of "''Error starting server''"] s'
    by blast
  from first second show ?thesis
    by (simp add: before_try_def config_lines_def decode_events_def key_path_def bin_path_def)
qed

text \<open>
  C9. When the body of the \<open>try\<close> statement raises a \<open>WLSTException\<close>, the handler
  issues the disconnect call first. When that call returns, the text of the exception is
  printed next and the process exits with code 0. When that call raises, the trace ends
  with the disconnect call: the text is never printed, the final \<open>exit()\<close> is not
  reached, and the run ends by the exception of the disconnect call.
\<close>

theorem cleanup_before_report:
  assumes "env_set w uid sn dn dp svc" and "decode_ok w c d"
    and "try_body w dn dp sn (before_try dp sn d) = (Raise (WLSTException m), tr)"
  shows "(nmDisconnect_outcome w (length (filter (\<lambda>ev. ev = NmDisconnect) tr)) = None \<longrightarrow>
            run w = (Exited 0, tr @ [NmDisconnect, Print m])) \<and>
         (nmDisconnect_outcome w (length (filter (\<lambda>ev. ev = NmDisconnect) tr)) = Some e \<longrightarrow>
            run w = (Uncaught e, tr @ [NmDisconnect]))"
proof (intro conjI impI)
  assume "nmDisconnect_outcome w (length (filter (\<lambda>ev. ev = NmDisconnect) tr)) = None"
  then have "connect_and_start w dn dp sn (before_try dp sn d) =
      (Return (), tr @ [NmDisconnect, Print m])"
    by (simp add: try_caught[OF assms(3)])
  then show "run w = (Exited 0, tr @ [NmDisconnect, Print m])"
    by (simp add: run_after_decode[OF assms(1,2)])
next
  assume "nmDisconnect_outcome w (length (filter (\<lambda>ev. ev = NmDisconnect) tr)) = Some e"
  then have "connect_and_start w dn dp sn (before_try dp sn d) = (Raise e, tr @ [NmDisconnect])"
    by (simp add: try_caught[OF assms(3)])
  then show "run w = (Uncaught e, tr @ [NmDisconnect])"
    by (simp add: run_after_decode[OF assms(1,2)])
qed

theorem cleanup_before_report_witness:
  "run both_disconnects_fail_world =
     (Uncaught (WLSTException ''Not connected to Node Manager''),
      [Print ''domain path is /shared/domain'', Print ''server name is server1'',
       OpenFile ''/weblogic-operator/introspector/userKeyNodeManager.secure'' ''r'',
       ReadFile ''/weblogic-operator/introspector/userKeyNodeManager.secure'',
       CloseFile ''/weblogic-operator/introspector/userKeyNodeManager.secure'',
       OpenFile ''/tmp/userKeyNodeManager.secure.bin'' ''wb'',
       WriteFile ''/tmp/userKeyNodeManager.secure.bin'' ''secretbytes'',
       CloseFile ''/tmp/userKeyNodeManager.secure.bin'',
       NmConnect (the_connect_args ''domain1'' ''/shared/domain''),
       NmStart ''server1'',
       NmDisconnect,
       NmDisconnect]) \<and>
   run disconnect_fails_world =
     (Exited 0,
      [Print ''domain path is /shared/domain'', Print ''server name is server1'',
       OpenFile ''/weblogic-operator/introspector/userKeyNodeManager.secure'' ''r'',
       ReadFile ''/weblogic-operator/introspector/userKeyNodeManager.secure'',
       CloseFile ''/weblogic-operator/introspector/userKeyNodeManager.secure'',
       OpenFile ''/tmp/userKeyNodeManager.secure.bin'' ''wb'',
       WriteFile ''/tmp/userKeyNodeManager.secure.bin'' ''secretbytes'',
       CloseFile ''/tmp/userKeyNodeManager.secure.bin'',
       NmConnect (the_connect_args ''domain1'' ''/shared/domain''),
       NmStart ''server1'',
       NmDisconnect,
       NmDisconnect,
       Print ''Connection lost''])"
proof -
  let ?tr = "before_try ''/shared/domain'' ''server1'' ''secretbytes'' @
      [NmConnect (the_connect_args ''domain1'' ''/shared/domain''), NmStart ''server1'', NmDisconnect]"
  have count: "length (filter (\<lambda>ev. ev = NmDisconnect) ?tr) = 1"
    by (simp add: count_before_try)
  let ?w = both_disconnects_fail_world
  have e: "env_set ?w ''uid1'' ''server1'' ''domain1'' ''/shared/domain'' ''svc1''"
    by (simp add: env_set_def both_disconnects_fail_world_def sample_world_def)
  have k: "decode_ok ?w ''c2VjcmV0Ynl0ZXM='' ''secretbytes''"
    by (simp add: decode_ok_def both_disconnects_fail_world_def sample_world_def sample_decoded
        del: b64decode.simps)
  have c: "nmConnect_outcome ?w (the_connect_args ''domain1'' ''/shared/domain'') = None"
    and s: "nmStart_outcome ?w ''server1'' = None"
    by (simp_all add: both_disconnects_fail_world_def sample_world_def)
  have z0: "nmDisconnect_outcome ?w 0 = Some (WLSTException ''Connection lost'')"
    by (simp add: both_disconnects_fail_world_def)
  have b: "try_body ?w ''domain1'' ''/shared/domain'' ''server1''
      (before_try ''/shared/domain'' ''server1'' ''secretbytes'') =
      (Raise (WLSTException ''Connection lost''), ?tr)"
    using z0 by (simp add: try_body_disconnect[OF c s] count_before_try)
  have z: "nmDisconnect_outcome ?w (length (filter (\<lambda>ev. ev = NmDisconnect) ?tr)) =
      Some (WLSTException ''Not connected to Node Manager'')"
    unfolding count by (simp add: both_disconnects_fail_world_def)
  from cleanup_before_report[OF e k b, of "WLSTException ''Not connected to Node Manager''"] z
  have first: "run ?w =
      (Uncaught (WLSTException ''Not connected to Node Manager''), ?tr @ [NmDisconnect])"
    by blast
  let ?v = disconnect_fails_world
  have e': "env_set ?v ''uid1'' ''server1'' ''domain1'' ''/shared/domain'' ''svc1''"
    by (simp add: env_set_def disconnect_fails_world_def sample_world_def)
  have k': "decode_ok ?v ''c2VjcmV0Ynl0ZXM='' ''secretbytes''"
    by (simp add: decode_ok_def disconnect_fails_world_def sample_world_def sample_decoded
        del: b64decode.simps)
  have c': "nmConnect_outcome ?v (the_connect_args ''domain1'' ''/shared/domain'') = None"
    and s': "nmStart_outcome ?v ''server1'' = None"
    by (simp_all add: disconnect_fails_world_def sample_world_def)
  have z0': "nmDisconnect_outcome ?v 0 = Some (WLSTException ''Connection lost'')"
    by (simp add: disconnect_fails_world_def)
  have b': "try_body ?v ''domain1'' ''/shared/domain'' ''server1''
      (before_try ''/shared/domain'' ''server1'' ''secretbytes'') =
      (Raise (WLSTException ''Connection lost''), ?tr)"
    using z0' by (simp add: try_body_disconnect[OF c' s'] count_before_try)
  have z': "nmDisconnect_outcome ?v (length (filter (\<lambda>ev. ev = NmDisconnect) ?tr)) = None"
    unfolding count by (simp add: disconnect_fails_world_def)
  from cleanup_before_report[OF e' k' b', of "WLSTException ''unused''"] z'
  have second: "run ?v = (Exited 0, ?tr @ [NmDisconnect, Print ''Connection lost''])"
    by blast
  from first second show ?thesis
    by (simp add: before_try_def config_lines_def decode_events_def key_path_def bin_path_def)
qed

subsection \<open>The order of the run\<close>

text \<open>
  C7, as stated, fails: a failure of the connect call is routed through a disconnect
  call, but when that disconnect call raises, the run does not end with exit code 0 as
  the other paths do; it ends by an uncaught exception.
\<close>

theorem failed_cleanup_changes_exit_counterexample:
  "nmConnect_outcome refused_and_cleanup_fails_world (the_connect_args ''domain1'' ''/shared/domain'') =
     Some (WLSTException ''Cannot connect to Node Manager'') \<and>
   filter is_nm_event (snd (run refused_and_cleanup_fails_world)) =
     [NmConnect (the_connect_args ''domain1'' ''/shared/domain''), NmDisconnect] \<and>
   fst (run refused_and_cleanup_fails_world) =
     Uncaught (WLSTException ''Not connected to Node Manager'')"
proof -
  have e: "env_set refused_and_cleanup_fails_world ''uid1'' ''server1'' ''domain1'' ''/shared/domain'' ''svc1''"
    by (simp add: env_set_def refused_and_cleanup_fails_world_def sample_world_def)
  have k: "decode_ok refused_and_cleanup_fails_world ''c2VjcmV0Ynl0ZXM='' ''secretbytes''"
    by (simp add: decode_ok_def refused_and_cleanup_fails_world_def sample_world_def sample_decoded
        del: b64decode.simps)
  have c: "nmConnect_outcome refused_and_cleanup_fails_world (the_connect_args ''domain1'' ''/shared/domain'') =
     Some (WLSTException ''Cannot connect to Node Manager'')"
    by (simp add: refused_and_cleanup_fails_world_def)
  have z: "nmDisconnect_outcome refused_and_cleanup_fails_world 0 =
     Some (WLSTException ''Not connected to Node Manager'')"
    by (simp add: refused_and_cleanup_fails_world_def)
  show ?thesis
    using c z by (simp add: run_connect_caught[OF e k c] nm_before_try)
qed

text \<open>
  C7, amended. In every run the outside calls occur in the order of the stages: the file
  calls of the decoding step, then the connect call, then the start command, then the
  disconnect calls. With the five variables set and the decoding step done, a run whose
  calls all return is the linear sequence and exits with code 0; a run whose connect call
  or start command raises a \<open>WLSTException\<close> skips the rest of the \<open>try\<close> body, issues
  a disconnect call and, when that call returns, prints the text and exits with the same
  code 0.
\<close>

theorem linear_order:
  "sorted (map stage (filter (\<lambda>e. \<not> is_print e) (snd (run w)))) \<and>
   (env_set w uid sn dn dp svc \<and> decode_ok w c d \<and>
    nmConnect_outcome w (the_connect_args dn dp) = None \<and> nmStart_outcome w sn = None \<and>
    nmDisconnect_outcome w 0 = None \<longrightarrow>
      run w = (Exited 0, config_lines dp sn @ decode_events d @
                 [NmConnect (the_connect_args dn dp), NmStart sn, NmDisconnect])) \<and>
   (env_set w uid sn dn dp svc \<and> decode_ok w c d \<and>
    nmConnect_outcome w (the_connect_args dn dp) = Some (WLSTException m) \<and>
    nmDisconnect_outcome w 0 = None \<longrightarrow>
      run w = (Exited 0, config_lines dp sn @ decode_events d @
                 [NmConnect (the_connect_args dn dp), NmDisconnect, Print m])) \<and>
   (env_set w uid sn dn dp svc \<and> decode_ok w c d \<and>
    nmConnect_outcome w (the_connect_args dn dp) = None \<and>
    nmStart_outcome w sn = Some (WLSTException m) \<and>
    nmDisconnect_outcome w 0 = None \<longrightarrow>
      run w = (Exited 0, config_lines dp sn @ decode_events d @
                 [NmConnect (the_connect_args dn dp), NmStart sn, NmDisconnect, Print m]))"
proof (intro conjI impI)
  show "sorted (map stage (filter (\<lambda>e. \<not> is_print e) (snd (run w))))"
  proof (cases "missing_var w")
    case (Some u)
    then show ?thesis
      by (simp add: run_missing[OF Some])
  next
    case None
    then obtain uid sn dn dp svc where e: "env_set w uid sn dn dp svc"
      using missing_var_None by blast
    obtain ys where ys: "snd (decode_credential w (config_lines dp sn)) = config_lines dp sn @ ys"
      and st: "list_all (\<lambda>e. stage e = 1) ys"
      using decode_credential_events[of w "config_lines dp sn"] by blast
    obtain r tr where d: "decode_credential w (config_lines dp sn) = (r, tr)"
      by (cases "decode_credential w (config_lines dp sn)")
    with ys have tr: "tr = config_lines dp sn @ ys" by simp
    note so = stage_one_sorted[OF st, of "\<lambda>e. \<not> is_print e"]
    have trs: "sorted (map stage (filter (\<lambda>e. \<not> is_print e) tr))"
      using so by (simp add: tr config_lines_def)
    show ?thesis
    proof (cases r)
      case (Return x)
      obtain zs where zs: "snd (connect_and_start w dn dp sn tr) = tr @ zs"
        and sh: "filter (\<lambda>e. \<not> is_print e) zs \<in>
         {[NmConnect (the_connect_args dn dp)],
          [NmConnect (the_connect_args dn dp), NmDisconnect],
          [NmConnect (the_connect_args dn dp), NmStart sn],
          [NmConnect (the_connect_args dn dp), NmStart sn, NmDisconnect],
          [NmConnect (the_connect_args dn dp), NmStart sn, NmDisconnect, NmDisconnect]}"
        using connect_and_start_events[of w dn dp sn tr] by blast
      obtain r' tr' where c: "connect_and_start w dn dp sn tr = (r', tr')"
        by (cases "connect_and_start w dn dp sn tr")
      with zs have tr': "tr' = tr @ zs" by simp
      have run: "snd (run w) = tr'"
        using d Return c
        by (cases r') (simp_all add: run_def script_env_set[OF e] and_then_def wlst_exit_def)
      note nm = nm_shape_sorted[OF sh]
      have "sorted (map stage (filter (\<lambda>e. \<not> is_print e) ys) @
                    map stage (filter (\<lambda>e. \<not> is_print e) zs))"
        unfolding sorted_append using so nm by auto
      then show ?thesis
        by (simp add: run tr' tr config_lines_def)
    next
      case (Raise x)
      then have "snd (run w) = tr"
        using d by (simp add: run_def script_env_set[OF e] and_then_def)
      with trs show ?thesis by simp
    next
      case (Exit n)
      then have "snd (run w) = tr"
        using d by (simp add: run_def script_env_set[OF e] and_then_def)
      with trs show ?thesis by simp
    qed
  qed
next
  assume "env_set w uid sn dn dp svc \<and> decode_ok w c d \<and>
    nmConnect_outcome w (the_connect_args dn dp) = None \<and> nmStart_outcome w sn = None \<and>
    nmDisconnect_outcome w 0 = None"
  then show "run w = (Exited 0, config_lines dp sn @ decode_events d @
                 [NmConnect (the_connect_args dn dp), NmStart sn, NmDisconnect])"
    using run_success[of w uid sn dn dp svc c d] by (simp add: before_try_def)
next
  assume "env_set w uid sn dn dp svc \<and> decode_ok w c d \<and>
    nmConnect_outcome w (the_connect_args dn dp) = Some (WLSTException m) \<and>
    nmDisconnect_outcome w 0 = None"
  then show "run w = (Exited 0, config_lines dp sn @ decode_events d @
                 [NmConnect (the_connect_args dn dp), NmDisconnect, Print m])"
    using run_connect_caught[of w uid sn dn dp svc c d m] by (simp add: before_try_def)
next
  assume "env_set w uid sn dn dp svc \<and> decode_ok w c d \<and>
    nmConnect_outcome w (the_connect_args dn dp) = None \<and>
    nmStart_outcome w sn = Some (WLSTException m) \<and>
    nmDisconnect_outcome w 0 = None"
  then show "run w = (Exited 0, config_lines dp sn @ decode_events d @
                 [NmConnect (the_connect_args dn dp), NmStart sn, NmDisconnect, Print m])"
    using run_start_caught[of w uid sn dn dp svc c d m] by (simp add: before_try_def)
qed

theorem linear_order_witness:
  "run sample_world =
     (Exited 0,
      [Print ''domain path is /shared/domain'', Print ''server name is server1'',
       OpenFile ''/weblogic-operator/introspector/userKeyNodeManager.secure'' ''r'',
       ReadFile ''/weblogic-operator/introspector/userKeyNodeManager.secure'',
       CloseFile ''/weblogic-operator/introspector/userKeyNodeManager.secure'',
       OpenFile ''/tmp/userKeyNodeManager.secure.bin'' ''wb'',
       WriteFile ''/tmp/userKeyNodeManager.secure.bin'' ''secretbytes'',
       CloseFile ''/tmp/userKeyNodeManager.secure.bin'',
       NmConnect (the_connect_args ''domain1'' ''/shared/domain''),
       NmStart ''server1'',
       NmDisconnect]) \<and>
   run start_fails_world =
     (Exited 0,
      [Print ''domain path is /shared/domain'', Print ''server name is server1'',
       OpenFile ''/weblogic-operator/introspector/userKeyNodeManager.secure'' ''r'',
       ReadFile ''/weblogic-operator/introspector/userKeyNodeManager.secure'',
       CloseFile ''/weblogic-operator/introspector/userKeyNodeManager.secure'',
       OpenFile ''/tmp/userKeyNodeManager.secure.bin'' ''wb'',
       WriteFile ''/tmp/userKeyNodeManager.secure.bin'' ''secretbytes'',
       CloseFile ''/tmp/userKeyNodeManager.secure.bin'',
       NmConnect (the_connect_args ''domain1'' ''/shared/domain''),
       NmStart ''server1'',
       NmDisconnect,
       Print ''Error starting server''])"
proof -
  have "nmConnect_outcome sample_world (the_connect_args ''domain1'' ''/shared/domain'') = None \<and>
      nmStart_outcome sample_world ''server1'' = None \<and> nmDisconnect_outcome sample_world 0 = None"
    by (simp add: sample_world_def)
  with sample_env sample_decode_ok
    linear_order[of sample_world "''uid1''" "''server1''" "''domain1''" "''/shared/domain''"
      "''svc1''" "''c2VjcmV0Ynl0ZXM=''" "''secretbytes''"]
  have "run sample_world = (Exited 0, config_lines ''/shared/domain'' ''server1'' @
      decode_events ''secretbytes'' @
      [NmConnect (the_connect_args ''domain1'' ''/shared/domain''), NmStart ''server1'', NmDisconnect])"
    by blast
  moreover
  have "nmConnect_outcome start_fails_world (the_connect_args ''domain1'' ''/shared/domain'') = None \<and>
      nmStart_outcome start_fails_world ''server1'' = Some (WLSTException ''Error starting server'') \<and>
      nmDisconnect_outcome start_fails_world 0 = None"
    by (simp add: start_fails_world_def sample_world_def)
  with start_fails_env start_fails_decode_ok
    linear_order[of start_fails_world "''uid1''" "''server1''" "''domain1''" "''/shared/domain''"
      "''svc1''" "''c2VjcmV0Ynl0ZXM=''" "''secretbytes''" "''Error starting server''"]
  have "run start_fails_world = (Exited 0, config_lines ''/shared/domain'' ''server1'' @
      decode_events ''secretbytes'' @
      [NmConnect (the_connect_args ''domain1'' ''/shared/domain''), NmStart ''server1'', NmDisconnect,
       Print ''Error starting server''])"
    by blast
  ultimately show ?thesis
    by (simp add: config_lines_def decode_events_def key_path_def bin_path_def)
qed

end
